theory Spec2Isabelle
  imports Complex_Main "HOL-Library.Word"
begin

unbundle bit_operations_syntax

section \<open>Bandpass solution flagging: shared vocabulary\<close>

text \<open>
  Python exceptions are values. Only the exception classes that the modelled code paths
  can raise are listed; \<open>PhaseOutlierFitError\<close> is the project's own exception class
  (imported by \<open>aocalibrate.py\<close> from \<open>flint.exceptions\<close>), the others are Python builtins.
\<close>

datatype error =
    AssertionError
  | TypeError
  | ValueError
  | IndexError
  | RuntimeError
  | FileNotFoundError
  | StructError
  | PhaseOutlierFitError

text \<open>
  A Python float is modelled as \<open>real option\<close>: \<open>None\<close> is NaN, \<open>Some x\<close> a finite
  value. Sums, products and the statistics of the phase and amplitude tests are exact
  (rounding and overflow are not modelled), and their literals are the decimals they
  write. The two quotients of counts that are compared with a threshold are rounded to
  binary64 as numpy rounds them, and the literal \<open>0.8\<close> of those comparisons is the
  binary64 number nearest to \<open>4 / 5\<close>.
\<close>

type_synonym pyfloat = "real option"

section \<open>\<open>preflagger.py\<close>: \<open>flags_over_threshold\<close>\<close>

text \<open>
  \<^verbatim>\<open>
  def flags_over_threshold(flags, thresh=0.8, ant_idx=None) -> bool:
      assert 0.0 <= thresh <= 1.0, ...
      number_flagged = np.sum(flags)
      total_flagged = np.prod(flags.shape)
      frac_flagged = number_flagged / total_flagged
      thresh_str = f"Total flagged: {frac_flagged:2.2f}"
      thresh_str = f"Antenna {ant_idx:02d} - {thresh_str}"
      logger.info(thresh_str)
      return frac_flagged > thresh
  \<close>
  The flags array is the flat list of its entries. For an empty array numpy's
  \<open>0 / 0\<close> is NaN (a warning, no exception), and every comparison with NaN is false.
  Formatting \<open>None\<close> with \<open>:02d\<close> raises \<open>TypeError\<close>; an \<open>int\<close> always formats.
\<close>

definition format_02d :: "int option \<Rightarrow> error + unit" where
  "format_02d ant_idx = (case ant_idx of None \<Rightarrow> Inl TypeError | Some _ \<Rightarrow> Inr ())"

text \<open>
  The quotient of two counts, both below \<open>2 ^ 53\<close> and so exact as floats, rounded to the
  nearest binary64 number, ties to the even significand: with \<open>2 ^ e \<le> a / b < 2 ^ (e + 1)\<close>
  the significand is \<open>a / b * 2 ^ (52 - e)\<close> rounded to an integer.
\<close>

function shift_up :: "nat \<Rightarrow> nat \<Rightarrow> nat \<Rightarrow> nat" where
  \<comment> \<open>from \<open>k\<close> on, the first \<open>k\<close> with \<open>b \<le> a * 2 ^ k\<close>\<close>
  "shift_up a b k = (if a = 0 \<or> b \<le> a * 2 ^ k then k else shift_up a b (Suc k))"
  by pat_completeness auto
termination
proof (relation "measure (\<lambda>(a, b, k). b - a * 2 ^ k)", goal_cases)
  case 1
  show ?case by simp
next
  case (2 a b k)
  then have "0 < a * 2 ^ k" and "a * 2 ^ k < b" by simp_all
  moreover have "a * 2 ^ Suc k = 2 * (a * 2 ^ k)" by simp
  ultimately have "b - a * 2 ^ Suc k < b - a * 2 ^ k" by linarith
  then show ?case by simp
qed

function shift_down :: "nat \<Rightarrow> nat \<Rightarrow> nat \<Rightarrow> nat" where
  \<comment> \<open>from \<open>j\<close> on, the last \<open>j\<close> with \<open>b * 2 ^ j \<le> a\<close>\<close>
  "shift_down a b j = (if b = 0 \<or> a < b * 2 ^ Suc j then j else shift_down a b (Suc j))"
  by pat_completeness auto
termination
proof (relation "measure (\<lambda>(a, b, j). a - b * 2 ^ j)", goal_cases)
  case 1
  show ?case by simp
next
  case (2 a b j)
  then have "0 < b * 2 ^ j" and "b * 2 ^ Suc j \<le> a" by simp_all
  moreover have "b * 2 ^ Suc j = 2 * (b * 2 ^ j)" by simp
  ultimately have "a - b * 2 ^ Suc j < a - b * 2 ^ j" by linarith
  then show ?case by simp
qed

definition round_half_even :: "real \<Rightarrow> int" where
  "round_half_even x =
     (let f = \<lfloor>x\<rfloor>; d = x - of_int f
      in if d < 1 / 2 then f else if 1 / 2 < d then f + 1 else if even f then f else f + 1)"

definition binary64_quotient :: "nat \<Rightarrow> nat \<Rightarrow> real" where
  "binary64_quotient a b =
     (if a = 0 then 0
      else
        let e = (if a < b then - int (shift_up a b 0) else int (shift_down a b 0))
        in of_int (round_half_even (real a / real b * 2 powi (52 - e))) * 2 powi (e - 52))"

definition float_0_8 :: real where
  \<comment> \<open>the float literal \<open>0.8\<close>\<close>
  "float_0_8 = binary64_quotient 4 5"

definition np_true_divide :: "nat \<Rightarrow> nat \<Rightarrow> pyfloat" where
  "np_true_divide a b = (if b = 0 then None else Some (binary64_quotient a b))"

definition float_gt :: "pyfloat \<Rightarrow> real \<Rightarrow> bool" where
  "float_gt x y = (case x of None \<Rightarrow> False | Some v \<Rightarrow> v > y)"

definition flags_over_threshold :: "bool list \<Rightarrow> real \<Rightarrow> int option \<Rightarrow> error + bool" where
  "flags_over_threshold flags thresh ant_idx =
     (if \<not> (0 \<le> thresh \<and> thresh \<le> 1) then Inl AssertionError
      else
        let number_flagged = length (filter (\<lambda>f. f) flags);
            total_flagged = length flags;
            frac_flagged = np_true_divide number_flagged total_flagged
        in case format_02d ant_idx of
             Inl e \<Rightarrow> Inl e
           | Inr _ \<Rightarrow> Inr (float_gt frac_flagged thresh))"

section \<open>Arrays of complex gains\<close>

text \<open>
  A \<open>complex128\<close> array element is kept as the two IEEE-754 binary64 bit patterns of its
  real and imaginary part, exactly the 16 bytes that numpy stores and writes. An
  \<open>ndarray\<close> is numpy's flat, row-major buffer together with its shape.
\<close>

type_synonym byte = "8 word"
type_synonym float64 = "64 word"
type_synonym complex128 = "float64 \<times> float64"

record ndarray =
  shape :: "nat list"
  data :: "complex128 list"

definition float64_isfinite :: "float64 \<Rightarrow> bool" where
  \<comment> \<open>finite iff the 11 exponent bits are not all ones\<close>
  "float64_isfinite w = (take_bit 11 (drop_bit 52 w) \<noteq> 2047)"

definition np_isfinite :: "complex128 \<Rightarrow> bool" where
  "np_isfinite z = (float64_isfinite (fst z) \<and> float64_isfinite (snd z))"

definition float64_nan :: float64 where
  "float64_nan = 0x7FF8000000000000"

definition np_nan :: complex128 where
  \<comment> \<open>what storing \<open>np.nan\<close> into a complex array writes: \<open>nan + 0j\<close>\<close>
  "np_nan = (float64_nan, 0)"

definition count_true :: "bool list \<Rightarrow> nat" where
  "count_true bs = length (filter (\<lambda>b. b) bs)"

section \<open>\<open>aocalibrate.py\<close>: \<open>select_refant\<close>\<close>

text \<open>
  \<^verbatim>\<open>
  def select_refant(bandpass: np.ndarray) -> int:
      assert len(bandpass.shape) == 4, ...
      mask = np.isfinite(bandpass)
      sum_mask = np.sum(mask, axis=(2, 3))
      max_ant = np.argmax(sum_mask, keepdims=True)
      return max_ant[0][0]
  \<close>
  \<open>sum_mask\<close> has shape \<open>(time, ant)\<close>. \<open>np.argmax\<close> without an axis works on the
  flattened array and returns the first position of the maximum (\<open>ValueError\<close> on an
  empty array); with \<open>keepdims=True\<close> that flat position sits in a \<open>(1, 1)\<close> array.
\<close>

fun first_index :: "('a \<Rightarrow> bool) \<Rightarrow> 'a list \<Rightarrow> nat" where
  "first_index P [] = 0"
| "first_index P (x # xs) = (if P x then 0 else Suc (first_index P xs))"

definition np_argmax :: "nat list \<Rightarrow> error + nat" where
  "np_argmax xs =
     (case xs of [] \<Rightarrow> Inl ValueError
      | y # ys \<Rightarrow> Inr (first_index (\<lambda>x. x = fold max ys y) xs))"

definition sum_axes_2_3 :: "nat \<Rightarrow> nat \<Rightarrow> nat \<Rightarrow> nat \<Rightarrow> bool list \<Rightarrow> nat list" where
  \<comment> \<open>\<open>np.sum(mask, axis=(2, 3))\<close> of a \<open>(nt, na, nc, np)\<close> boolean array, flattened\<close>
  "sum_axes_2_3 nt na nc np bs =
     map (\<lambda>i. count_true (take (nc * np) (drop (i * (nc * np)) bs))) [0..<nt * na]"

definition select_refant :: "ndarray \<Rightarrow> error + nat" where
  "select_refant bandpass =
     (case shape bandpass of
        [nt, na, nc, np] \<Rightarrow>
          let mask_finite = map np_isfinite (data bandpass);
              sum_mask = sum_axes_2_3 nt na nc np mask_finite
          in np_argmax sum_mask
      | _ \<Rightarrow> Inl AssertionError)"

section \<open>\<open>aocalibrate.py\<close>: the solution file codec\<close>

text \<open>
  The file system is a map from paths to file contents. The host is little-endian, so
  \<open>struct.pack\<close>'s native layout \<open>"8s6I2d"\<close> is 8 + 6 * 4 + 2 * 8 = 48 bytes without
  padding, least significant byte first, as \<open>"<i4"\<close> and \<open>"<c16"\<close> read it.
  Directories are implicit: the parent directory that saving creates is not modelled.
\<close>

type_synonym path = string
type_synonym filesystem = "path \<rightharpoonup> byte list"

record aosolutions =
  path :: path
  nsol :: int
  nant :: int
  nchan :: int
  npol :: int
  bandpass :: ndarray

fun le_bytes :: "nat \<Rightarrow> 'a::len word \<Rightarrow> byte list" where
  "le_bytes 0 w = []"
| "le_bytes (Suc n) w = ucast w # le_bytes n (drop_bit 8 w)"

fun le_word :: "byte list \<Rightarrow> 'a::len word" where
  "le_word [] = 0"
| "le_word (b # bs) = ucast b OR push_bit 8 (le_word bs)"

definition header_intro :: "byte list" where
  \<comment> \<open>\<open>b"MWAOCAL\0"\<close>\<close>
  "header_intro = [0x4D, 0x57, 0x41, 0x4F, 0x43, 0x41, 0x4C, 0x00]"

definition pack_I :: "int \<Rightarrow> error + byte list" where
  \<comment> \<open>\<open>struct\<close> format \<open>I\<close>: an unsigned 32-bit integer, \<open>struct.error\<close> out of range\<close>
  "pack_I v = (if 0 \<le> v \<and> v < 2 ^ 32 then Inr (le_bytes 4 (word_of_int v :: 32 word))
               else Inl StructError)"

definition pack_d_zero :: "byte list" where
  \<comment> \<open>\<open>struct\<close> format \<open>d\<close> of \<open>0.0\<close>\<close>
  "pack_d_zero = le_bytes 8 (0 :: float64)"

fun pack_Is :: "int list \<Rightarrow> error + byte list" where
  "pack_Is [] = Inr []"
| "pack_Is (v # vs) =
     (case pack_I v of Inl e \<Rightarrow> Inl e
      | Inr b \<Rightarrow> (case pack_Is vs of Inl e \<Rightarrow> Inl e | Inr bs \<Rightarrow> Inr (b @ bs)))"

definition tofile :: "ndarray \<Rightarrow> byte list" where
  "tofile a = concat (map (\<lambda>z. le_bytes 8 (fst z) @ le_bytes 8 (snd z)) (data a))"

definition save_aosolutions_file ::
  "filesystem \<Rightarrow> aosolutions \<Rightarrow> path \<Rightarrow> filesystem \<times> (error + path)" where
  \<comment> \<open>the file is opened (created empty) before the header is packed\<close>
  "save_aosolutions_file fs aosolutions output_path =
     (case pack_Is [0, 0, nsol aosolutions, nant aosolutions, nchan aosolutions, npol aosolutions] of
        Inl e \<Rightarrow> (fs(output_path \<mapsto> []), Inl e)
      | Inr ints \<Rightarrow>
          (fs(output_path \<mapsto>
                header_intro @ ints @ pack_d_zero @ pack_d_zero @ tofile (bandpass aosolutions)),
           Inr output_path))"

definition read_items :: "nat \<Rightarrow> int \<Rightarrow> byte list \<Rightarrow> byte list list \<times> byte list" where
  \<comment> \<open>\<open>np.fromfile\<close> on a binary stream: up to \<open>count\<close> whole items of \<open>sz\<close> bytes (all
      of them for a negative \<open>count\<close>); a short file gives a short array, not an error\<close>
  "read_items sz count bs =
     (let avail = length bs div sz;
          n = (if count < 0 then avail else min (nat count) avail)
      in (map (\<lambda>i. take sz (drop (i * sz) bs)) [0..<n], drop (n * sz) bs))"

definition fromfile_i4 :: "int \<Rightarrow> byte list \<Rightarrow> int list \<times> byte list" where
  "fromfile_i4 count bs =
     (case read_items 4 count bs of
        (items, rest) \<Rightarrow> (map (\<lambda>item. sint (le_word item :: 32 word)) items, rest))"

definition fromfile_c16 :: "int \<Rightarrow> byte list \<Rightarrow> complex128 list \<times> byte list" where
  "fromfile_c16 count bs =
     (case read_items 16 count bs of
        (items, rest) \<Rightarrow>
          (map (\<lambda>item. (le_word (take 8 item), le_word (drop 8 item))) items, rest))"

definition np_prod_int64 :: "int list \<Rightarrow> int" where
  \<comment> \<open>\<open>np.prod\<close> of \<open>int32\<close> values accumulates in \<open>int64\<close> and wraps\<close>
  "np_prod_int64 vs = sint (word_of_int (prod_list vs) :: 64 word)"

definition reshape :: "complex128 list \<Rightarrow> int list \<Rightarrow> error + ndarray" where
  \<comment> \<open>\<open>ndarray.reshape\<close>: one negative extent is inferred, two are an error, and the
      extents must account for every element\<close>
  "reshape xs dims =
     (let unknown = filter (\<lambda>d. d < 0) dims;
          s_known = prod_list (map nat (filter (\<lambda>d. 0 \<le> d) dims))
      in if length unknown > 1 then Inl ValueError
         else if length unknown = 1 then
           (if s_known = 0 \<or> length xs mod s_known \<noteq> 0 then Inl ValueError
            else Inr \<lparr>shape = map (\<lambda>d. if d < 0 then length xs div s_known else nat d) dims,
                      data = xs\<rparr>)
         else if length xs \<noteq> s_known then Inl ValueError
         else Inr \<lparr>shape = map nat dims, data = xs\<rparr>)"

definition load_aosolutions_file :: "filesystem \<Rightarrow> path \<Rightarrow> error + aosolutions" where
  "load_aosolutions_file fs solutions_path =
     (case fs solutions_path of
        None \<Rightarrow> Inl AssertionError
      | Some contents \<Rightarrow>
          (case fromfile_i4 2 contents of (junk, in_file1) \<Rightarrow>
          (case fromfile_i4 10 in_file1 of (header, in_file2) \<Rightarrow>
             if length header < 1 then Inl IndexError
             else let file_type = header ! 0 in
             if file_type \<noteq> 0 then Inl AssertionError
             else if length header < 2 then Inl IndexError
             else let structure_type = header ! 1 in
             if file_type \<noteq> 0 then Inl AssertionError
             else if length header < 6 then Inl ValueError
             else
               let sol_shape = [header ! 2, header ! 3, header ! 4, header ! 5] in
               (case fromfile_c16 (np_prod_int64 sol_shape) in_file2 of (elems, in_file3) \<Rightarrow>
               (case reshape elems sol_shape of
                  Inl e \<Rightarrow> Inl e
                | Inr bp \<Rightarrow>
                    Inr \<lparr>path = solutions_path, nsol = header ! 2, nant = header ! 3,
                         nchan = header ! 4, npol = header ! 5, bandpass = bp\<rparr>)))))"

definition valid_solution :: "aosolutions \<Rightarrow> bool" where
  \<comment> \<open>a valid \<open>GainSolutionSet\<close>: positive extents that fit the header's 32-bit fields,
      an array of exactly that shape, and an element count that fits \<open>int64\<close>\<close>
  "valid_solution x =
     (0 < nsol x \<and> nsol x < 2 ^ 31 \<and> 0 < nant x \<and> nant x < 2 ^ 31 \<and>
      0 < nchan x \<and> nchan x < 2 ^ 31 \<and> 0 < npol x \<and> npol x < 2 ^ 31 \<and>
      nsol x * nant x * nchan x * npol x < 2 ^ 63 \<and>
      shape (bandpass x) = [nat (nsol x), nat (nant x), nat (nchan x), nat (npol x)] \<and>
      length (data (bandpass x)) = nat (nsol x * nant x * nchan x * npol x))"

definition header_bytes :: "int \<Rightarrow> int \<Rightarrow> int \<Rightarrow> int \<Rightarrow> byte list" where
  \<comment> \<open>the 40 header bytes that follow the magic tag in a saved file\<close>
  "header_bytes a b c d =
     le_bytes 4 (0 :: 32 word) @ le_bytes 4 (0 :: 32 word) @
     le_bytes 4 (word_of_int a :: 32 word) @ le_bytes 4 (word_of_int b :: 32 word) @
     le_bytes 4 (word_of_int c :: 32 word) @ le_bytes 4 (word_of_int d :: 32 word) @
     pack_d_zero @ pack_d_zero"

subsection \<open>Concrete arrays and files used below\<close>

definition float64_one :: float64 where
  \<comment> \<open>the bit pattern of \<open>1.0\<close>\<close>
  "float64_one = 0x3FF0000000000000"

definition refant_example :: ndarray where
  \<comment> \<open>shape \<open>(2, 2, 2, 1)\<close>; finite entries per (time, ant): \<open>[[1, 0], [0, 2]]\<close>\<close>
  "refant_example =
     \<lparr>shape = [2, 2, 2, 1],
      data = [(float64_one, 0), np_nan, np_nan, np_nan,
              np_nan, np_nan, (float64_one, 0), (float64_one, 0)]\<rparr>"

definition roundtrip_example :: aosolutions where
  "roundtrip_example =
     \<lparr>path = ''in.bin'', nsol = 1, nant = 1, nchan = 1, npol = 2,
      bandpass = \<lparr>shape = [1, 1, 1, 2], data = [(float64_one, 0), np_nan]\<rparr>\<rparr>"

definition bad_magic_file :: "byte list" where
  \<comment> \<open>magic \<open>"NOTMAGIC"\<close>, both type fields 0, extents 1, 1, 1, 1, one element \<open>1.0 + 0j\<close>\<close>
  "bad_magic_file =
     [0x4E, 0x4F, 0x54, 0x4D, 0x41, 0x47, 0x49, 0x43] @
     [0, 0, 0, 0] @ [0, 0, 0, 0] @
     [1, 0, 0, 0] @ [1, 0, 0, 0] @ [1, 0, 0, 0] @ [1, 0, 0, 0] @
     replicate 16 0 @
     [0, 0, 0, 0, 0, 0, 0xF0, 0x3F] @ replicate 8 0"

section \<open>Numbers\<close>

text \<open>
  The value of a finite binary64 bit pattern is the real number it denotes (sign,
  11 exponent bits biased by 1023, 52 fraction bits, subnormals for exponent field 0).
  A non-finite pattern (infinity or NaN) has no value: \<open>None\<close> stands for every non-finite
  float, so infinities are not told apart from NaN. A complex number is finite when both
  parts are. Solution files mark flagged gains with NaN; for a gain with an infinite part
  the model differs from numpy, whose \<open>np.angle\<close> of such a gain is a finite number.
\<close>

type_synonym pycomplex = "complex option"

definition float64_value :: "float64 \<Rightarrow> real" where
  "float64_value w =
     (let e = unat (take_bit 11 (drop_bit 52 w));
          m = unat (take_bit 52 w);
          mag = (if e = 0 then real m * 2 powi (- 1074)
                 else (2 ^ 52 + real m) * 2 powi (int e - 1075))
      in if bit w 63 then - mag else mag)"

definition np_value :: "complex128 \<Rightarrow> pycomplex" where
  "np_value z =
     (if np_isfinite z then Some (Complex (float64_value (fst z)) (float64_value (snd z)))
      else None)"

definition is_finite :: "'a option \<Rightarrow> bool" where
  \<comment> \<open>\<open>np.isfinite\<close> on a value of the model\<close>
  "is_finite x = (case x of None \<Rightarrow> False | Some _ \<Rightarrow> True)"

definition lift2 :: "('a \<Rightarrow> 'b \<Rightarrow> 'c) \<Rightarrow> 'a option \<Rightarrow> 'b option \<Rightarrow> 'c option" where
  \<comment> \<open>an arithmetic operation propagates NaN\<close>
  "lift2 f x y = (case x of None \<Rightarrow> None | Some a \<Rightarrow> (case y of None \<Rightarrow> None | Some b \<Rightarrow> Some (f a b)))"

definition np_divide :: "pycomplex \<Rightarrow> pycomplex \<Rightarrow> pycomplex" where
  \<comment> \<open>complex division; dividing by zero gives a non-finite result\<close>
  "np_divide x y = (if y = Some 0 then None else lift2 (\<lambda>a b. a / b) x y)"

definition np_angle :: "pycomplex \<Rightarrow> pyfloat" where
  "np_angle z = map_option Arg z"

definition np_abs :: "pycomplex \<Rightarrow> pyfloat" where
  "np_abs z = map_option cmod z"

definition float_lt :: "pyfloat \<Rightarrow> pyfloat \<Rightarrow> bool" where
  \<comment> \<open>\<open><\<close> on floats: false when either side is NaN\<close>
  "float_lt x y = (case x of None \<Rightarrow> False | Some a \<Rightarrow> (case y of None \<Rightarrow> False | Some b \<Rightarrow> a < b))"

definition finite_values :: "'a option list \<Rightarrow> 'a list" where
  \<comment> \<open>\<open>xs[np.isfinite(xs)]\<close>\<close>
  "finite_values xs = map the (filter is_finite xs)"

definition select_mask :: "'a list \<Rightarrow> bool list \<Rightarrow> 'a list" where
  \<comment> \<open>boolean-mask indexing \<open>xs[msk]\<close>\<close>
  "select_mask xs msk = map fst (filter snd (zip xs msk))"

definition np_mean :: "real list \<Rightarrow> pyfloat" where
  \<comment> \<open>the mean of an empty array is NaN (a warning, no exception)\<close>
  "np_mean xs = (if xs = [] then None else Some (sum_list xs / real (length xs)))"

definition np_std :: "real list \<Rightarrow> pyfloat" where
  "np_std xs =
     (case np_mean xs of None \<Rightarrow> None
      | Some mu \<Rightarrow> map_option sqrt (np_mean (map (\<lambda>x. \<bar>x - mu\<bar> ^ 2) xs)))"

definition np_median :: "real list \<Rightarrow> pyfloat" where
  \<comment> \<open>the middle of the sorted values, the mean of the two middle ones for an even
      count, NaN for an empty array\<close>
  "np_median xs =
     (let s = sort xs; n = length s
      in if n = 0 then None
         else if odd n then Some (s ! (n div 2))
         else Some ((s ! (n div 2 - 1) + s ! (n div 2)) / 2))"

section \<open>External collaborators\<close>

text \<open>
  Functions of other libraries (scipy, numpy, matplotlib) and functions of this project
  whose modules are not part of the sources at hand (\<open>flint.bptools.smoother\<close>,
  \<open>get_aocalibrate_output_path\<close> of \<open>flint.naming\<close>, \<open>flag_mean_xxyy_amplitude_ratio\<close>) are
  parameters of the model. Each may raise. Plotting writes image files only, which are
  not part of the modelled file system.
  \<^item> \<open>curve_fit xdata ydata p0\<close> is the optimiser behind
    \<open>scipy.optimize.curve_fit(fit_complex_gain_model, ...)\<close>, called once the data have
    passed scipy's check (\<open>scipy_curve_fit\<close> below); it returns the fitted
    \<open>(gradient, offset)\<close> and raises \<open>RuntimeError\<close> when the least-squares optimiser does
    not converge.
  \<^item> \<open>polyfit x y deg\<close> is \<open>numpy.polyfit\<close> once its arguments are bound.
  \<^item> \<open>divide_bandpass_by_ref_ant\<close> and \<open>smooth_bandpass_complex_gains\<close> take and return the
    \<open>(ant, chan, pol)\<close> array of one time solution, flattened.
\<close>

record externals =
  curve_fit :: "real list \<Rightarrow> pyfloat list \<Rightarrow> real \<times> real \<Rightarrow> error + (pyfloat \<times> pyfloat)"
  polyfit :: "real list \<Rightarrow> real list \<Rightarrow> int \<Rightarrow> error + real list"
  plot_phase_outlier :: "path \<Rightarrow> string \<Rightarrow> error + path"
  plot_solutions :: "filesystem \<Rightarrow> path \<Rightarrow> int option \<Rightarrow> error + path list"
  flag_mean_xxyy_amplitude_ratio :: "pycomplex list \<Rightarrow> pycomplex list \<Rightarrow> error + bool"
  divide_bandpass_by_ref_ant :: "complex128 list \<Rightarrow> int \<Rightarrow> error + complex128 list"
  smooth_bandpass_complex_gains :: "complex128 list \<Rightarrow> error + complex128 list"
  get_aocalibrate_output_path :: "path \<Rightarrow> bool \<Rightarrow> bool \<Rightarrow> path"

section \<open>\<open>preflagger.py\<close>: \<open>flag_mean_residual_amplitude\<close>\<close>

text \<open>
  \<^verbatim>\<open>
  def flag_mean_residual_amplitude(complex_gains, use_robust=True, polynomial_order=5) -> bool:
      amplitudes = np.abs(complex_gains)
      idxs = np.arange(amplitudes.shape[0])
      mask = np.isfinite(amplitudes)
      poly_coeffs = np.polyfit(idxs[mask], amplitudes[mask], order=polynomial_order)
      poly_vals = np.polyval(poly_coeffs, idxs)
      residual = amplitudes - poly_vals
      mask = np.isfinite(residual)
      if use_robust:
          mean = np.median(residual[mask])
          deviation = np.abs(residual) - mean
          deviation = np.median(deviation[np.isfinite(deviation)])
      else:
          mean = np.mean(residual[mask])
          deviation = np.std(residual[mask])
      bad = np.abs(mean) > 0.1 or deviation > 0.5
      return bad
  \<close>
  The signature of \<open>numpy.polyfit\<close> is \<open>polyfit(x, y, deg, rcond=None, full=False, w=None,
  cov=False)\<close>. Python raises \<open>TypeError\<close> for a call that passes a keyword argument which
  is not a parameter, or that leaves the required \<open>deg\<close> unbound.
\<close>

definition np_polyfit ::
  "externals \<Rightarrow> real list \<Rightarrow> real list \<Rightarrow> (string \<times> int) list \<Rightarrow> error + real list" where
  \<comment> \<open>\<open>np.polyfit(x, y, **kwargs)\<close>: two positional arguments, the rest by keyword\<close>
  "np_polyfit ext x y kwargs =
     (if list_ex (\<lambda>kw. fst kw \<notin> set [''deg'', ''rcond'', ''full'', ''w'', ''cov'']) kwargs
      then Inl TypeError
      else case map_of kwargs ''deg'' of
             None \<Rightarrow> Inl TypeError
           | Some deg \<Rightarrow> polyfit ext x y deg)"

definition np_polyval :: "real list \<Rightarrow> real \<Rightarrow> real" where
  \<comment> \<open>coefficients from the highest degree down\<close>
  "np_polyval coeffs x = foldl (\<lambda>acc c. acc * x + c) 0 coeffs"

definition flag_mean_residual_amplitude ::
  "externals \<Rightarrow> pycomplex list \<Rightarrow> bool \<Rightarrow> int \<Rightarrow> error + bool" where
  "flag_mean_residual_amplitude ext complex_gains use_robust polynomial_order =
     (let amplitudes = map np_abs complex_gains;
          idxs = map real [0..<length amplitudes];
          mask1 = map is_finite amplitudes
      in case np_polyfit ext (select_mask idxs mask1) (finite_values amplitudes)
                [(''order'', polynomial_order)] of
           Inl e \<Rightarrow> Inl e
         | Inr poly_coeffs \<Rightarrow>
             let poly_vals = map (np_polyval poly_coeffs) idxs;
                 residual = map2 (\<lambda>a v. map_option (\<lambda>x. x - v) a) amplitudes poly_vals;
                 mean_dev =
                   (if use_robust then
                      let mean = np_median (finite_values residual);
                          deviation = map (\<lambda>r. lift2 (\<lambda>x y. \<bar>x\<bar> - y) r mean) residual
                      in (mean, np_median (finite_values deviation))
                    else (np_mean (finite_values residual), np_std (finite_values residual)))
             in Inr (float_lt (Some (1 / 10)) (map_option abs (fst mean_dev))
                     \<or> float_lt (Some (1 / 2)) (snd mean_dev)))"

section \<open>\<open>preflagger.py\<close>: \<open>flag_outlier_phase\<close>\<close>

record phase_outlier_results =
  complex_gains :: "pycomplex list"
  init_model_gains :: "pycomplex list"
  fit_model_gains :: "pycomplex list"
  init_model_params :: "pyfloat \<times> pyfloat"
  fit_model_params :: "pyfloat \<times> pyfloat"
  outlier_mask :: "bool list"
  unwrapped_residual_mean :: pyfloat
  unwrapped_residual_std :: pyfloat
  flag_cut :: real

text \<open>
  \<^verbatim>\<open>
  def complex_gain_model(xs, gradient, phase_offset):
      gains = np.exp(1j * 2.0 * np.pi * gradient * xs + phase_offset * 1j)
      return gains
  \<close>
\<close>

definition complex_gain_model :: "real list \<Rightarrow> pyfloat \<Rightarrow> pyfloat \<Rightarrow> pycomplex list" where
  "complex_gain_model xs gradient phase_offset =
     map (\<lambda>x. lift2 (\<lambda>g p. exp (\<i> * 2 * of_real pi * of_real g * of_real x + of_real p * \<i>))
                 gradient phase_offset) xs"

text \<open>
  The last part of \<open>flag_outlier_phase\<close>, from the residuals to the mask:
  \<^verbatim>\<open>
      unwrapped_residuals_mask = np.isfinite(unwrapped_residuals)
      valid_residuals = unwrapped_residuals[unwrapped_residuals_mask]
      unwrapped_residual_median = np.median(valid_residuals)
      unwrapped_residual_mad = np.median(np.abs(valid_residuals - unwrapped_residual_median))
      unwrapped_residual_mean = np.nanmean(unwrapped_residuals)
      unwrapped_residual_std = np.nanstd(unwrapped_residuals)
      if use_mad:
          m, s = unwrapped_residual_median, unwrapped_residual_mad
      else:
          m, s = unwrapped_residual_mean, unwrapped_residual_std
      final_mask = np.isfinite(unwrapped_residuals) & (
          np.abs(unwrapped_residuals) < (m + flag_cut * s)
      )
  \<close>
  It returns \<open>(~final_mask, m, s)\<close>.
\<close>

definition residual_statistics :: "pyfloat list \<Rightarrow> bool \<Rightarrow> pyfloat \<times> pyfloat" where
  "residual_statistics unwrapped_residuals use_mad =
     (let valid_residuals = finite_values unwrapped_residuals;
          unwrapped_residual_median = np_median valid_residuals;
          unwrapped_residual_mad =
            (case unwrapped_residual_median of
               None \<Rightarrow> None
             | Some med \<Rightarrow> np_median (map (\<lambda>r. \<bar>r - med\<bar>) valid_residuals));
          unwrapped_residual_mean = np_mean valid_residuals;
          unwrapped_residual_std = np_std valid_residuals
      in if use_mad then (unwrapped_residual_median, unwrapped_residual_mad)
         else (unwrapped_residual_mean, unwrapped_residual_std))"

definition final_mask :: "pyfloat list \<Rightarrow> real \<Rightarrow> pyfloat \<Rightarrow> pyfloat \<Rightarrow> bool list" where
  "final_mask unwrapped_residuals fcut m s =
     map (\<lambda>r. is_finite r \<and>
               float_lt (map_option abs r) (lift2 (+) m (map_option (\<lambda>sd. fcut * sd) s)))
         unwrapped_residuals"

definition residual_outliers :: "pyfloat list \<Rightarrow> real \<Rightarrow> bool \<Rightarrow> bool list \<times> pyfloat \<times> pyfloat" where
  "residual_outliers unwrapped_residuals fcut use_mad =
     (case residual_statistics unwrapped_residuals use_mad of
        (m, s) \<Rightarrow> (map Not (final_mask unwrapped_residuals fcut m s), m, s))"

text \<open>
  \<open>scipy.optimize.curve_fit\<close> checks its data before it optimises: with the default
  \<open>check_finite=True\<close> a NaN or an infinity in \<open>ydata\<close> raises \<open>ValueError\<close>. The channel
  indices in \<open>xdata\<close> are always finite.
\<close>

definition scipy_curve_fit ::
  "externals \<Rightarrow> real list \<Rightarrow> pyfloat list \<Rightarrow> real \<times> real \<Rightarrow> error + (pyfloat \<times> pyfloat)" where
  "scipy_curve_fit ext xdata ydata p0 =
     (if list_all is_finite ydata then curve_fit ext xdata ydata p0 else Inl ValueError)"

text \<open>
  The whole function. \<open>gain_angles[complex_mask][0]\<close> raises \<open>IndexError\<close> when no gain is
  finite. Nothing catches what \<open>curve_fit\<close> raises. The diagnostic plot is drawn when a
  plot path is given.
  \<^verbatim>\<open>
      idxs = np.arange(complex_gains.shape[0])
      complex_mask = np.isfinite(complex_gains)
      gain_angles = np.angle(complex_gains)
      init_phase_offset = gain_angles[complex_mask][0]
      init_gradients = (gain_angles[1:] - gain_angles[:-1]) / (idxs[1:] - idxs[:-1])
      init_gradients_mask = np.isfinite(init_gradients) & (np.abs(init_gradients) < np.pi / 2)
      init_gradient = np.median(init_gradients[init_gradients_mask])
      init_p0 = (init_gradient / (2.0 * np.pi), init_phase_offset)
      init_model_gains = complex_gain_model(idxs, *init_p0)
      unwrapped_complex_gains = complex_gains / init_model_gains
      p0 = [0, 0]
      results = curve_fit(fit_complex_gain_model, idxs[complex_mask],
                          np.angle(unwrapped_complex_gains)[complex_mask], p0)
      fit_model_gains = complex_gain_model(idxs, *results[0])
      unwrapped_residuals = np.angle(unwrapped_complex_gains / fit_model_gains)
      ...
      if plot_path:
          plot_phase_outlier(phase_outlier_results=..., output_path=plot_path, title=plot_title)
      return phase_outlier_results
  \<close>
\<close>

definition flag_outlier_phase ::
  "externals \<Rightarrow> pycomplex list \<Rightarrow> real \<Rightarrow> bool \<Rightarrow> string \<Rightarrow> path option
   \<Rightarrow> error + phase_outlier_results" where
  "flag_outlier_phase ext gains fcut use_mad plot_title plot_path =
     (let idxs = map real [0..<length gains];
          complex_mask = map is_finite gains;
          gain_angles = map np_angle gains
      in case select_mask gain_angles complex_mask of
           [] \<Rightarrow> Inl IndexError
         | init_phase_offset # _ \<Rightarrow>
            (let init_gradients =
                   map2 (\<lambda>d run. map_option (\<lambda>v. v / run) d)
                     (map2 (lift2 (-)) (tl gain_angles) (butlast gain_angles))
                     (map2 (-) (tl idxs) (butlast idxs));
                 init_gradients_mask =
                   map (\<lambda>g. is_finite g \<and> float_lt (map_option abs g) (Some (pi / 2))) init_gradients;
                 init_gradient = np_median (finite_values (select_mask init_gradients init_gradients_mask));
                 init_p0 = (map_option (\<lambda>g. g / (2 * pi)) init_gradient, init_phase_offset);
                 init_model = complex_gain_model idxs (fst init_p0) (snd init_p0);
                 unwrapped_complex_gains = map2 np_divide gains init_model
             in (case scipy_curve_fit ext (select_mask idxs complex_mask)
                       (select_mask (map np_angle unwrapped_complex_gains) complex_mask) (0, 0) of
                  Inl e \<Rightarrow> Inl e
                | Inr popt \<Rightarrow>
                   (let fit_model = complex_gain_model idxs (fst popt) (snd popt);
                        unwrapped_residuals =
                          map np_angle (map2 np_divide unwrapped_complex_gains fit_model)
                    in (case residual_outliers unwrapped_residuals fcut use_mad of
                         (outliers, m, s) \<Rightarrow>
                          (let results =
                                 \<lparr>complex_gains = gains, init_model_gains = init_model,
                                  fit_model_gains = fit_model, init_model_params = init_p0,
                                  fit_model_params = popt, outlier_mask = outliers,
                                  unwrapped_residual_mean = m, unwrapped_residual_std = s,
                                  flag_cut = fcut\<rparr>
                           in (case plot_path of
                                None \<Rightarrow> Inr results
                              | Some output_path \<Rightarrow>
                                  (case plot_phase_outlier ext output_path plot_title of
                                     Inl e \<Rightarrow> Inl e
                                   | Inr _ \<Rightarrow> Inr results))))))))"

text \<open>
  The outlier test in the words of the specification: a channel is an outlier when its
  residual is not finite or lies \<open>flag_cut\<close> spreads or more away from the centre.
\<close>

definition spec_outlier :: "pyfloat \<Rightarrow> real \<Rightarrow> real \<Rightarrow> real \<Rightarrow> bool" where
  "spec_outlier r fcut m s = (case r of None \<Rightarrow> True | Some x \<Rightarrow> \<bar>x - m\<bar> \<ge> fcut * s)"

definition cut_residuals :: "pyfloat list" where
  \<comment> \<open>seven residual phases with median \<open>1/4\<close> and median absolute deviation \<open>1/8\<close>\<close>
  "cut_residuals =
     [Some 0, Some (1 / 4), Some (- 7 / 8), Some (3 / 8), Some (3 / 8), Some (3 / 8), Some (- 1 / 2)]"

section \<open>\<open>aocalibrate.py\<close>: \<open>flag_aosolutions\<close>\<close>

record flagged_aosolution =
  flagged_path :: path
  plots :: "path list"

subsection \<open>Indexing the \<open>(time, ant, chan, pol)\<close> array\<close>

text \<open>
  An index beyond an axis raises \<open>IndexError\<close>. Every index used below is non-negative.
\<close>

definition getitem_cell :: "ndarray \<Rightarrow> nat \<Rightarrow> nat \<Rightarrow> nat \<Rightarrow> error + complex128 list" where
  \<comment> \<open>\<open>bandpass[time, ant, :, pol]\<close>\<close>
  "getitem_cell b t a p =
     (case shape b of
        [nt, na, nc, np] \<Rightarrow>
          if t < nt \<and> a < na \<and> p < np
          then Inr (map (\<lambda>c. data b ! (((t * na + a) * nc + c) * np + p)) [0..<nc])
          else Inl IndexError
      | _ \<Rightarrow> Inl IndexError)"

definition setitem_cell_where :: "ndarray \<Rightarrow> nat \<Rightarrow> nat \<Rightarrow> bool list \<Rightarrow> nat \<Rightarrow> ndarray" where
  \<comment> \<open>\<open>bandpass[time, ant, flags, pol] = np.nan\<close> for a boolean \<open>flags\<close> over the channels\<close>
  "setitem_cell_where b t a flags p =
     (case shape b of
        [nt, na, nc, np] \<Rightarrow>
          b\<lparr>data := fold (\<lambda>c d. if flags ! c then d[((t * na + a) * nc + c) * np + p := np_nan] else d)
                        [0..<nc] (data b)\<rparr>
      | _ \<Rightarrow> b)"

definition setitem_cell :: "ndarray \<Rightarrow> nat \<Rightarrow> nat \<Rightarrow> nat \<Rightarrow> ndarray" where
  \<comment> \<open>\<open>bandpass[time, ant, :, pol] = np.nan\<close>\<close>
  "setitem_cell b t a p =
     (case shape b of
        [nt, na, nc, np] \<Rightarrow> setitem_cell_where b t a (replicate nc True) p
      | _ \<Rightarrow> b)"

definition setitem_antenna :: "ndarray \<Rightarrow> nat \<Rightarrow> nat \<Rightarrow> ndarray" where
  \<comment> \<open>\<open>bandpass[time, ant, :, :] = np.nan\<close>\<close>
  "setitem_antenna b t a =
     (case shape b of
        [nt, na, nc, np] \<Rightarrow> fold (\<lambda>p b'. setitem_cell b' t a p) [0..<np] b
      | _ \<Rightarrow> b)"

definition getitem_time :: "ndarray \<Rightarrow> nat \<Rightarrow> error + complex128 list" where
  \<comment> \<open>\<open>bandpass[time]\<close>, flattened\<close>
  "getitem_time b t =
     (case shape b of
        nt # rest \<Rightarrow>
          if t < nt then Inr (take (prod_list rest) (drop (t * prod_list rest) (data b)))
          else Inl IndexError
      | [] \<Rightarrow> Inl IndexError)"

definition setitem_time :: "ndarray \<Rightarrow> nat \<Rightarrow> complex128 list \<Rightarrow> error + ndarray" where
  \<comment> \<open>\<open>bandpass[time] = values\<close>: the values must have the shape of one time solution\<close>
  "setitem_time b t vals =
     (case shape b of
        nt # rest \<Rightarrow>
          if \<not> t < nt then Inl IndexError
          else if length vals \<noteq> prod_list rest then Inl ValueError
          else Inr (b\<lparr>data := take (t * prod_list rest) (data b) @ vals
                               @ drop (Suc t * prod_list rest) (data b)\<rparr>)
      | [] \<Rightarrow> Inl IndexError)"

subsection \<open>Names and loops\<close>

definition pols :: "nat \<Rightarrow> string" where
  "pols p = (if p = 0 then ''XX'' else if p = 1 then ''XY'' else if p = 2 then ''YX'' else ''YY'')"

fun digits :: "nat \<Rightarrow> string" where
  "digits n = (if n < 10 then [''0123456789'' ! n]
               else digits (n div 10) @ [''0123456789'' ! (n mod 10)])"

definition fmt_02d :: "nat \<Rightarrow> string" where
  "fmt_02d n = (if n < 10 then CHR ''0'' # digits n else digits n)"

definition path_name :: "path \<Rightarrow> string" where
  \<comment> \<open>\<open>Path.name\<close>: the last component\<close>
  "path_name p = rev (takeWhile (\<lambda>c. c \<noteq> CHR ''/'') (rev p))"

definition path_join :: "path \<Rightarrow> string \<Rightarrow> path" where
  "path_join d n = d @ ''/'' @ n"

fun for_each :: "('s \<Rightarrow> 'i \<Rightarrow> error + 's) \<Rightarrow> 'i list \<Rightarrow> 's \<Rightarrow> error + 's" where
  \<comment> \<open>a \<open>for\<close> loop whose body may raise\<close>
  "for_each body [] s = Inr s"
| "for_each body (i # rest) s =
     (case body s i of Inl e \<Rightarrow> Inl e | Inr s' \<Rightarrow> for_each body rest s')"

definition py_range :: "int \<Rightarrow> nat list" where
  "py_range n = [0..<nat n]"

subsection \<open>The first pass: one antenna and polarisation\<close>

text \<open>
  \<^verbatim>\<open>
  for ant in range(solutions.nant):
      if ant == ref_ant:
          continue
      ant_gains = bandpass[time, ant, :, pol] / ref_ant_gains
      plot_title = f"{title} - ant{ant:02d} - {pols[pol]}"
      ouput_path = (plot_dir / f"{title}.ant{ant:02d}.{pols[pol]}.png"
                    if plot_dir is not None else None)
      if np.sum(np.isfinite(ant_gains)) == 0:
          continue
      try:
          phase_outlier_result = flag_outlier_phase(complex_gains=ant_gains, flag_cut=flag_cut,
                                                    plot_title=plot_title, plot_path=ouput_path)
          bandpass[time, ant, phase_outlier_result.outlier_mask, pol] = np.nan
      except PhaseOutlierFitError:
          bandpass[time, ant, :, pol] = np.nan
      if flags_over_threshold(flags=~np.isfinite(bandpass[time, ant, :, pol]),
                              thresh=0.8, ant_idx=ant):
          bandpass[time, ant, :, pol] = np.nan
      complex_gains = bandpass[time, ant, :, pol]
      if any(np.isfinite(complex_gains)) and flag_mean_residual_amplitude(
          complex_gains=complex_gains):
          bandpass[time, ant, :, pol] = np.nan
  \<close>
  Only \<open>PhaseOutlierFitError\<close> is caught; any other exception leaves the function.
\<close>

definition flag_antenna_pol ::
  "externals \<Rightarrow> real \<Rightarrow> path option \<Rightarrow> string \<Rightarrow> nat \<Rightarrow> nat \<Rightarrow> nat \<Rightarrow> complex128 list
   \<Rightarrow> ndarray \<Rightarrow> nat \<Rightarrow> error + ndarray" where
  "flag_antenna_pol ext fcut plot_dir title time pol ref_ant ref_ant_gains b ant =
     (if ant = ref_ant then Inr b
      else
        (case getitem_cell b time ant pol of
           Inl e \<Rightarrow> Inl e
         | Inr raw \<Rightarrow>
            (let ant_gains = map2 np_divide (map np_value raw) (map np_value ref_ant_gains);
                 plot_title = title @ '' - ant'' @ fmt_02d ant @ '' - '' @ pols pol;
                 ouput_path =
                   map_option (\<lambda>d. path_join d (title @ ''.ant'' @ fmt_02d ant @ ''.'' @ pols pol @ ''.png''))
                     plot_dir
             in if count_true (map is_finite ant_gains) = 0 then Inr b
                else
                  (case (case flag_outlier_phase ext ant_gains fcut False plot_title ouput_path of
                           Inr phase_outlier_result \<Rightarrow>
                             Inr (setitem_cell_where b time ant (outlier_mask phase_outlier_result) pol)
                         | Inl e \<Rightarrow>
                             if e = PhaseOutlierFitError then Inr (setitem_cell b time ant pol)
                             else Inl e) of
                     Inl e \<Rightarrow> Inl e
                   | Inr b1 \<Rightarrow>
                      (case getitem_cell b1 time ant pol of
                         Inl e \<Rightarrow> Inl e
                       | Inr cell1 \<Rightarrow>
                          (case flags_over_threshold (map (\<lambda>z. \<not> np_isfinite z) cell1) float_0_8
                                  (Some (int ant)) of
                             Inl e \<Rightarrow> Inl e
                           | Inr over \<Rightarrow>
                              (let b2 = (if over then setitem_cell b1 time ant pol else b1)
                               in (case getitem_cell b2 time ant pol of
                                     Inl e \<Rightarrow> Inl e
                                   | Inr cell2 \<Rightarrow>
                                       if list_ex np_isfinite cell2 then
                                         (case flag_mean_residual_amplitude ext
                                                 (map np_value cell2) True 5 of
                                            Inl e \<Rightarrow> Inl e
                                          | Inr bad \<Rightarrow>
                                              Inr (if bad then setitem_cell b2 time ant pol else b2))
                                       else Inr b2))))))))"

text \<open>
  \<^verbatim>\<open>
  for time in range(solutions.nsol):
      for pol in (0, 3):
          ref_ant_gains = bandpass[time, ref_ant, :, pol]
          if np.sum(np.isfinite(ref_ant_gains)) == 0:
              raise ValueError(f"The ref_ant={ref_ant} is completely bad. ")
          for ant in range(solutions.nant):
              ...
  \<close>
\<close>

definition flag_time_pol ::
  "externals \<Rightarrow> real \<Rightarrow> path option \<Rightarrow> string \<Rightarrow> int \<Rightarrow> nat \<Rightarrow> ndarray \<Rightarrow> nat \<times> nat
   \<Rightarrow> error + ndarray" where
  "flag_time_pol ext fcut plot_dir title n_ant ref_ant b tp =
     (case tp of (time, pol) \<Rightarrow>
        (case getitem_cell b time ref_ant pol of
           Inl e \<Rightarrow> Inl e
         | Inr ref_ant_gains \<Rightarrow>
             if count_true (map np_isfinite ref_ant_gains) = 0 then Inl ValueError
             else for_each (flag_antenna_pol ext fcut plot_dir title time pol ref_ant ref_ant_gains)
                    (py_range n_ant) b))"

definition first_pass ::
  "externals \<Rightarrow> real \<Rightarrow> path option \<Rightarrow> string \<Rightarrow> aosolutions \<Rightarrow> nat \<Rightarrow> ndarray \<Rightarrow> error + ndarray" where
  "first_pass ext fcut plot_dir title solutions ref_ant b =
     for_each (flag_time_pol ext fcut plot_dir title (nant solutions) ref_ant)
       (concat (map (\<lambda>time. [(time, 0), (time, 3)]) (py_range (nsol solutions)))) b"

subsection \<open>The second pass: the XX to YY amplitude ratio\<close>

text \<open>
  \<^verbatim>\<open>
  for time in range(solutions.nsol):
      ref_ant_gains = bandpass[time, ref_ant]
      for ant in range(solutions.nant):
          if ref_ant == ant:
              continue
          ant_gains = bandpass[time, ant] / ref_ant_gains
          if flag_mean_xxyy_amplitude_ratio(
              xx_complex_gains=ant_gains[:, 0], yy_complex_gains=ant_gains[:, 3]):
              bandpass[time, ant, :, :] = np.nan
  \<close>
\<close>

definition getitem_antenna :: "ndarray \<Rightarrow> nat \<Rightarrow> nat \<Rightarrow> error + complex128 list" where
  \<comment> \<open>\<open>bandpass[time, ant]\<close>, a \<open>(chan, pol)\<close> array, flattened\<close>
  "getitem_antenna b t a =
     (case shape b of
        [nt, na, nc, np] \<Rightarrow>
          if t < nt \<and> a < na
          then Inr (take (nc * np) (drop ((t * na + a) * (nc * np)) (data b)))
          else Inl IndexError
      | _ \<Rightarrow> Inl IndexError)"

definition getitem_column :: "nat \<Rightarrow> 'a list \<Rightarrow> nat \<Rightarrow> error + 'a list" where
  \<comment> \<open>\<open>gains[:, pol]\<close> of a flattened \<open>(chan, pol)\<close> array with \<open>np\<close> polarisations\<close>
  "getitem_column np xs p =
     (if p < np then Inr (map (\<lambda>c. xs ! (c * np + p)) [0..<length xs div np])
      else Inl IndexError)"

definition flag_antenna_ratio ::
  "externals \<Rightarrow> nat \<Rightarrow> nat \<Rightarrow> complex128 list \<Rightarrow> ndarray \<Rightarrow> nat \<Rightarrow> error + ndarray" where
  "flag_antenna_ratio ext time ref_ant ref_ant_gains b ant =
     (if ref_ant = ant then Inr b
      else
        (case getitem_antenna b time ant of
           Inl e \<Rightarrow> Inl e
         | Inr raw \<Rightarrow>
            (let ant_gains = map2 np_divide (map np_value raw) (map np_value ref_ant_gains)
             in (case getitem_column (last (shape b)) ant_gains 0 of
                   Inl e \<Rightarrow> Inl e
                 | Inr xx_complex_gains \<Rightarrow>
                    (case getitem_column (last (shape b)) ant_gains 3 of
                       Inl e \<Rightarrow> Inl e
                     | Inr yy_complex_gains \<Rightarrow>
                        (case flag_mean_xxyy_amplitude_ratio ext xx_complex_gains yy_complex_gains of
                           Inl e \<Rightarrow> Inl e
                         | Inr bad \<Rightarrow> Inr (if bad then setitem_antenna b time ant else b)))))))"

definition second_pass :: "externals \<Rightarrow> aosolutions \<Rightarrow> nat \<Rightarrow> ndarray \<Rightarrow> error + ndarray" where
  "second_pass ext solutions ref_ant b =
     for_each
       (\<lambda>b' time.
          case getitem_antenna b' time ref_ant of
            Inl e \<Rightarrow> Inl e
          | Inr ref_ant_gains \<Rightarrow>
              for_each (flag_antenna_ratio ext time ref_ant ref_ant_gains)
                (py_range (nant solutions)) b')
       (py_range (nsol solutions)) b"

subsection \<open>Persisting, smoothing and the final check\<close>

text \<open>
  \<^verbatim>\<open>
  out_solutions_path = get_aocalibrate_output_path(
      ms_path=solutions_path, include_preflagger=True, include_smoother=False)
  solutions.save(output_path=out_solutions_path)
  if plot_solutions_throughout:
      output_plots = plot_solutions(solutions=out_solutions_path, ref_ant=ref_ant)
      plots.extend(output_plots)
  if smooth_solutions:
      for time in range(solutions.nsol):
          complex_gains = divide_bandpass_by_ref_ant(complex_gains=bandpass[time], ref_ant=ref_ant)
          bandpass[time] = smooth_bandpass_complex_gains(complex_gains=complex_gains)
      out_solutions_path = get_aocalibrate_output_path(
          ms_path=solutions_path, include_preflagger=True, include_smoother=True)
      solutions.save(output_path=out_solutions_path)
      if plot_solutions_throughout:
          output_plots = plot_solutions(solutions=out_solutions_path, ref_ant=None)
          plots.extend(output_plots)
  \<close>
  The result is the file system, and the final array, output path and plots unless
  something raised. What was written before an exception stays written.
\<close>

definition smooth_time :: "externals \<Rightarrow> nat \<Rightarrow> ndarray \<Rightarrow> nat \<Rightarrow> error + ndarray" where
  "smooth_time ext ref_ant b time =
     (case getitem_time b time of
        Inl e \<Rightarrow> Inl e
      | Inr gains_t \<Rightarrow>
         (case divide_bandpass_by_ref_ant ext gains_t (int ref_ant) of
            Inl e \<Rightarrow> Inl e
          | Inr divided \<Rightarrow>
             (case smooth_bandpass_complex_gains ext divided of
                Inl e \<Rightarrow> Inl e
              | Inr smoothed \<Rightarrow> setitem_time b time smoothed)))"

definition optional_plots ::
  "externals \<Rightarrow> bool \<Rightarrow> filesystem \<Rightarrow> path \<Rightarrow> int option \<Rightarrow> error + path list" where
  "optional_plots ext plot_solutions_throughout fs p ref =
     (if plot_solutions_throughout then plot_solutions ext fs p ref else Inr [])"

definition persist ::
  "externals \<Rightarrow> filesystem \<Rightarrow> path \<Rightarrow> aosolutions \<Rightarrow> nat \<Rightarrow> ndarray \<Rightarrow> bool \<Rightarrow> bool \<Rightarrow> path list
   \<Rightarrow> filesystem \<times> (error + ndarray \<times> path \<times> path list)" where
  "persist ext fs solutions_path solutions ref_ant b smooth_solutions plot_solutions_throughout plots0 =
     (let out1 = get_aocalibrate_output_path ext solutions_path True False
      in case save_aosolutions_file fs (solutions\<lparr>bandpass := b\<rparr>) out1 of
           (fs1, Inl e) \<Rightarrow> (fs1, Inl e)
         | (fs1, Inr _) \<Rightarrow>
            (case optional_plots ext plot_solutions_throughout fs1 out1 (Some (int ref_ant)) of
               Inl e \<Rightarrow> (fs1, Inl e)
             | Inr output_plots1 \<Rightarrow>
                 if \<not> smooth_solutions then (fs1, Inr (b, out1, plots0 @ output_plots1))
                 else
                   (case for_each (smooth_time ext ref_ant) (py_range (nsol solutions)) b of
                      Inl e \<Rightarrow> (fs1, Inl e)
                    | Inr b_smooth \<Rightarrow>
                       (let out2 = get_aocalibrate_output_path ext solutions_path True True
                        in case save_aosolutions_file fs1 (solutions\<lparr>bandpass := b_smooth\<rparr>) out2 of
                             (fs2, Inl e) \<Rightarrow> (fs2, Inl e)
                           | (fs2, Inr _) \<Rightarrow>
                              (case optional_plots ext plot_solutions_throughout fs2 out2 None of
                                 Inl e \<Rightarrow> (fs2, Inl e)
                               | Inr output_plots2 \<Rightarrow>
                                   (fs2, Inr (b_smooth, out2,
                                              plots0 @ output_plots1 @ output_plots2)))))))"

text \<open>
  \<^verbatim>\<open>
  total_flagged = np.sum(~np.isfinite(bandpass)) / np.prod(bandpass.shape)
  if total_flagged > 0.8:
      ...
      raise ValueError(msg)
  flagged_aosolutions = FlaggedAOSolution(path=out_solutions_path, plots=tuple(plots))
  return flagged_aosolutions
  \<close>
\<close>

definition total_flagged :: "ndarray \<Rightarrow> pyfloat" where
  "total_flagged b =
     np_true_divide (count_true (map (\<lambda>z. \<not> np_isfinite z) (data b))) (prod_list (shape b))"

definition sanity_check :: "ndarray \<Rightarrow> path \<Rightarrow> path list \<Rightarrow> error + flagged_aosolution" where
  "sanity_check b out_path all_plots =
     (if float_gt (total_flagged b) float_0_8 then Inl ValueError
      else Inr \<lparr>flagged_path = out_path, plots = all_plots\<rparr>)"

text \<open>
  The function up to the point where the file is persisted: load, reference antenna,
  first plots, the two flagging passes.
  \<^verbatim>\<open>
  solutions = AOSolutions.load(path=solutions_path)
  title = solutions_path.name
  bandpass = solutions.bandpass
  if ref_ant < 0:
      ref_ant = select_refant(bandpass=solutions.bandpass)
  plots = []
  if plot_solutions_throughout:
      output_plots = plot_solutions(solutions=solutions_path, ref_ant=ref_ant)
      plots.extend(output_plots)
  \<close>
\<close>

definition flagging ::
  "externals \<Rightarrow> filesystem \<Rightarrow> path \<Rightarrow> int \<Rightarrow> real \<Rightarrow> path option \<Rightarrow> bool
   \<Rightarrow> error + aosolutions \<times> nat \<times> ndarray \<times> path list" where
  "flagging ext fs solutions_path ref_ant fcut plot_dir plot_solutions_throughout =
     (case load_aosolutions_file fs solutions_path of
        Inl e \<Rightarrow> Inl e
      | Inr solutions \<Rightarrow>
         (case (if ref_ant < 0 then select_refant (bandpass solutions) else Inr (nat ref_ant)) of
            Inl e \<Rightarrow> Inl e
          | Inr ref \<Rightarrow>
             (case optional_plots ext plot_solutions_throughout fs solutions_path (Some (int ref)) of
                Inl e \<Rightarrow> Inl e
              | Inr plots0 \<Rightarrow>
                 (case first_pass ext fcut plot_dir (path_name solutions_path) solutions ref
                         (bandpass solutions) of
                    Inl e \<Rightarrow> Inl e
                  | Inr b1 \<Rightarrow>
                     (case second_pass ext solutions ref b1 of
                        Inl e \<Rightarrow> Inl e
                      | Inr b2 \<Rightarrow> Inr (solutions, ref, b2, plots0))))))"

definition flag_aosolutions ::
  "externals \<Rightarrow> filesystem \<Rightarrow> path \<Rightarrow> int \<Rightarrow> real \<Rightarrow> path option \<Rightarrow> path option \<Rightarrow> bool \<Rightarrow> bool
   \<Rightarrow> filesystem \<times> (error + flagged_aosolution)" where
  \<comment> \<open>\<open>out_solutions_path\<close> is a parameter of the function; the body assigns the name anew
      before its first use\<close>
  "flag_aosolutions ext fs solutions_path ref_ant fcut plot_dir out_solutions_path
       smooth_solutions plot_solutions_throughout =
     (case flagging ext fs solutions_path ref_ant fcut plot_dir plot_solutions_throughout of
        Inl e \<Rightarrow> (fs, Inl e)
      | Inr (solutions, ref, b, plots0) \<Rightarrow>
         (case persist ext fs solutions_path solutions ref b smooth_solutions
                 plot_solutions_throughout plots0 of
            (fs', Inl e) \<Rightarrow> (fs', Inl e)
          | (fs', Inr (b', out_solutions_path, all_plots)) \<Rightarrow>
              (fs', sanity_check b' out_solutions_path all_plots)))"

subsection \<open>Concrete runs used below\<close>

definition solution_file :: "aosolutions \<Rightarrow> byte list" where
  \<comment> \<open>the bytes of the file that saving a valid solution set writes\<close>
  "solution_file x =
     header_intro @ header_bytes (nsol x) (nant x) (nchan x) (npol x) @ tofile (bandpass x)"

definition stored_elements :: "byte list \<Rightarrow> complex128 list" where
  \<comment> \<open>the array elements a solution file holds: all the \<open>complex128\<close> items from offset 48\<close>
  "stored_elements contents = fst (fromfile_c16 (- 1) (drop 48 contents))"

definition example_externals :: externals where
  \<comment> \<open>sample collaborators: an optimiser that does not converge, a smoother that changes
      nothing, a plotter that draws nothing, and output names made by appending suffixes\<close>
  "example_externals =
     \<lparr>curve_fit = (\<lambda>xdata ydata p0. Inl RuntimeError),
      polyfit = (\<lambda>x y deg. Inr (replicate (nat deg + 1) 0)),
      plot_phase_outlier = (\<lambda>output_path title. Inr output_path),
      plot_solutions = (\<lambda>fs p ref. Inr []),
      flag_mean_xxyy_amplitude_ratio = (\<lambda>xx yy. Inr False),
      divide_bandpass_by_ref_ant = (\<lambda>gains ref. Inr gains),
      smooth_bandpass_complex_gains = (\<lambda>gains. Inr gains),
      get_aocalibrate_output_path =
        (\<lambda>p include_preflagger include_smoother.
           p @ (if include_preflagger then ''.preflagged'' else [])
             @ (if include_smoother then ''.smoothed'' else []))\<rparr>"


definition over_flagged :: aosolutions where
  \<comment> \<open>one time, one antenna, five channels, four polarisations: 3 finite gains, 17 NaN\<close>
  "over_flagged =
     \<lparr>path = ''cal.bin'', nsol = 1, nant = 1, nchan = 5, npol = 4,
      bandpass = \<lparr>shape = [1, 1, 5, 4],
                  data = [(float64_one, 0), np_nan, np_nan, (float64_one, 0),
                          (float64_one, 0), np_nan, np_nan, np_nan] @ replicate 12 np_nan\<rparr>\<rparr>"

definition one_antenna :: aosolutions where
  \<comment> \<open>one time, one antenna, one channel, four polarisations, every gain \<open>1 + 0j\<close>\<close>
  "one_antenna =
     \<lparr>path = ''cal.bin'', nsol = 1, nant = 1, nchan = 1, npol = 4,
      bandpass = \<lparr>shape = [1, 1, 1, 4], data = replicate 4 (float64_one, 0)\<rparr>\<rparr>"


section \<open>Properties of \<open>flags_over_threshold\<close>\<close>

lemmas binary64_defs = binary64_quotient_def round_half_even_def float_0_8_def Let_def

lemma float_0_8_value: "float_0_8 = 7205759403792794 / 2 ^ 53"
  by (simp add: binary64_defs)

text \<open>
  With a threshold in \<open>[0, 1]\<close> and an antenna index passed, the function returns whether
  the quotient \<open>flagged_count / total_count\<close>, as numpy rounds it, is strictly greater than
  the threshold; an empty array has the quotient NaN and gives false.
\<close>

lemma flags_over_threshold_with_ant_idx:
  assumes "0 \<le> thresh" and "thresh \<le> 1"
  shows "flags_over_threshold flags thresh (Some a) =
           Inr (flags \<noteq> [] \<and> binary64_quotient (length (filter (\<lambda>f. f) flags)) (length flags) > thresh)"
  using assms
  by (simp add: flags_over_threshold_def format_02d_def np_true_divide_def float_gt_def)

text \<open>
  C8. The specification has \<open>should_flag_all(flags, thresh)\<close> return false for 80 of 100
  flags at the threshold 0.8 and true for 81 of 100. Called that way, with \<open>ant_idx\<close> left
  at its default \<open>None\<close>, \<open>flags_over_threshold\<close> returns neither: formatting the log line
  raises \<open>TypeError\<close> before the comparison. Only with an antenna index passed does it
  return what is specified, false for 80 of 100 and true for 81 of 100.
\<close>

theorem flags_over_threshold_boundary:
  "flags_over_threshold (replicate 80 True @ replicate 20 False) float_0_8 None = Inl TypeError
   \<and> flags_over_threshold (replicate 81 True @ replicate 19 False) float_0_8 None = Inl TypeError
   \<and> flags_over_threshold (replicate 80 True @ replicate 20 False) float_0_8 (Some a) = Inr False
   \<and> flags_over_threshold (replicate 81 True @ replicate 19 False) float_0_8 (Some a) = Inr True"
  by (simp add: flags_over_threshold_def format_02d_def np_true_divide_def float_gt_def binary64_defs)

text \<open>
  C9. Without an antenna index (\<open>ant_idx = None\<close>, the default) \<open>flags_over_threshold\<close>
  never returns a boolean: with a valid threshold it raises \<open>TypeError\<close> when the log
  message is formatted, before the comparison. Whenever a boolean is returned, an integer
  antenna index was passed.
\<close>

theorem flags_over_threshold_default_ant_idx:
  "(\<forall>b. flags_over_threshold flags thresh None \<noteq> Inr b)
   \<and> (0 \<le> thresh \<and> thresh \<le> 1 \<longrightarrow> flags_over_threshold flags thresh None = Inl TypeError)
   \<and> (flags_over_threshold flags thresh ant_idx = Inr b \<longrightarrow> (\<exists>i. ant_idx = Some i))"
  by (auto simp: flags_over_threshold_def format_02d_def Let_def split: option.splits if_splits)

theorem flags_over_threshold_default_ant_idx_witness:
  "(0::real) \<le> 4 / 5 \<and> (4 / 5 :: real) \<le> 1
   \<and> flags_over_threshold [True, False] (4 / 5) None = Inl TypeError
   \<and> flags_over_threshold [True, False] (4 / 5) (Some 3) = Inr False
   \<and> (\<exists>i. Some (3::int) = Some i)"
  using flags_over_threshold_default_ant_idx [of "[True, False]" "4 / 5" "Some 3" False]
  by (simp add: flags_over_threshold_def format_02d_def np_true_divide_def float_gt_def binary64_defs)

section \<open>Properties of \<open>select_refant\<close>\<close>

text \<open>
  C7. The specification takes the maximum over the first time solution. \<open>select_refant\<close> takes
  \<open>np.argmax\<close> over the flattened \<open>(time, ant)\<close> counts instead: on \<open>refant_example\<close> (two
  times, two antennas, finite counts \<open>[[1, 0], [0, 2]]\<close>) it returns 3, which is
  \<open>time * nant + ant\<close> for time 1 and antenna 1 and no antenna index at all, while the
  antenna with the most finite entries at the first time is antenna 0.
\<close>

theorem select_refant_flat_index:
  "select_refant refant_example = Inr 3
   \<and> sum_axes_2_3 2 2 2 1 (map np_isfinite (data refant_example)) = [1, 0, 0, 2]"
  by (simp add: select_refant_def refant_example_def sum_axes_2_3_def np_isfinite_def
      float64_isfinite_def np_nan_def float64_nan_def float64_one_def np_argmax_def count_true_def upt_conv_Cons)

section \<open>Properties of the solution file codec\<close>

lemma length_le_bytes [simp]: "length (le_bytes n w) = n"
  by (induction n arbitrary: w) auto

lemma le_word_le_bytes: "(le_word (le_bytes n w) :: 'a::len word) = take_bit (8 * n) (w :: 'a word)"
proof (induction n arbitrary: w)
  case 0 show ?case by simp
next
  case (Suc n)
  show ?case
    apply (simp add: Suc)
    apply (rule bit_eqI)
    apply (auto simp: bit_simps)
    done
qed

lemma le_word_le_bytes_32 [simp]: "le_word (le_bytes 4 w) = (w :: 32 word)"
  by (simp add: le_word_le_bytes take_bit_word_eq_self)

lemma le_word_le_bytes_64 [simp]: "le_word (le_bytes 8 w) = (w :: 64 word)"
  by (simp add: le_word_le_bytes take_bit_word_eq_self)

lemma read_items_prefix:
  assumes "0 < sz" and "length pre = n * sz"
  shows "read_items sz (int n) (pre @ rest) = (map (\<lambda>i. take sz (drop (i * sz) pre)) [0..<n], rest)"
proof -
  have "(n * sz + length rest) div sz = n + length rest div sz"
    using assms(1) by simp
  then have avail: "n \<le> (length pre + length rest) div sz"
    using assms(2) by simp
  have items: "take sz (drop (i * sz) (pre @ rest)) = take sz (drop (i * sz) pre)" if "i < n" for i
  proof -
    have "Suc i * sz \<le> n * sz" using that by (intro mult_le_mono1) simp
    then show ?thesis using assms by simp
  qed
  show ?thesis
    using avail assms items by (simp add: read_items_def Let_def min_absorb1)
qed

lemma chunk_concat_map:
  assumes "\<And>x. length (f x) = sz" and "i < length xs"
  shows "take sz (drop (i * sz) (concat (map f xs))) = f (xs ! i)"
  using assms(2)
proof (induction xs arbitrary: i)
  case Nil then show ?case by simp
next
  case (Cons x xs)
  show ?case
  proof (cases i)
    case 0 then show ?thesis using assms(1) by simp
  next
    case (Suc j)
    then show ?thesis using Cons assms(1) by simp
  qed
qed

lemma length_concat_map_uniform:
  assumes "\<And>x. length (f x) = sz"
  shows "length (concat (map f xs)) = length xs * sz"
  using assms by (induction xs) auto

lemma length_tofile: "length (tofile a) = length (data a) * 16"
  unfolding tofile_def by (rule length_concat_map_uniform) simp

lemma fromfile_c16_tofile:
  "fromfile_c16 (int (length (data a))) (tofile a @ rest) = (data a, rest)"
proof -
  let ?f = "\<lambda>z::complex128. le_bytes 8 (fst z) @ le_bytes 8 (snd z)"
  have len: "\<And>z. length (?f z) = 16" by simp
  have "map (\<lambda>item. (le_word (take 8 item) :: float64, le_word (drop 8 item) :: float64))
          (map (\<lambda>i. take 16 (drop (i * 16) (tofile a))) [0..<length (data a)]) = data a"
    by (rule nth_equalityI) (simp_all add: tofile_def chunk_concat_map[of ?f 16, OF len])
  then show ?thesis
    by (simp add: fromfile_c16_def read_items_prefix[of 16 "tofile a" "length (data a)"] length_tofile)
qed

lemma pack_I_ok: "0 \<le> v \<Longrightarrow> v < 2 ^ 31 \<Longrightarrow> pack_I v = Inr (le_bytes 4 (word_of_int v :: 32 word))"
  by (simp add: pack_I_def)

lemma sint_word_of_int_32: "0 \<le> v \<Longrightarrow> v < 2 ^ 31 \<Longrightarrow> sint (word_of_int v :: 32 word) = v"
  by (simp add: sint_sbintrunc' signed_take_bit_int_eq_self)

lemma sint_word_of_int_64: "0 \<le> v \<Longrightarrow> v < 2 ^ 63 \<Longrightarrow> sint (word_of_int v :: 64 word) = v"
  by (simp add: sint_sbintrunc' signed_take_bit_int_eq_self)

lemma fromfile_i4_junk: "fromfile_i4 2 (header_intro @ rest) = (map (\<lambda>item. sint (le_word item :: 32 word)) [take 4 header_intro, drop 4 header_intro], rest)"
  using read_items_prefix[of 4 header_intro 2 rest]
  by (simp add: fromfile_i4_def header_intro_def upt_conv_Cons)

lemma fromfile_i4_header:
  "\<exists>t0 t1 t2 t3. fromfile_i4 10 (header_bytes a b c d @ rest) =
     ([0, 0, sint (word_of_int a :: 32 word), sint (word_of_int b :: 32 word),
       sint (word_of_int c :: 32 word), sint (word_of_int d :: 32 word), t0, t1, t2, t3], rest)"
  using read_items_prefix[of 4 "header_bytes a b c d" 10 rest]
  by (simp add: fromfile_i4_def header_bytes_def pack_d_zero_def upt_conv_Cons)


lemma save_valid:
  assumes "valid_solution x"
  shows "save_aosolutions_file fs x p =
           (fs(p \<mapsto> header_intro @ header_bytes (nsol x) (nant x) (nchan x) (npol x) @ tofile (bandpass x)),
            Inr p)"
  using assms
  by (simp add: save_aosolutions_file_def valid_solution_def pack_I_def header_bytes_def)

lemma reshape_valid:
  assumes "valid_solution x"
  shows "reshape (data (bandpass x)) [nsol x, nant x, nchan x, npol x] = Inr (bandpass x)"
proof -
  have pos: "0 \<le> nsol x" "0 \<le> nant x" "0 \<le> nchan x" "0 \<le> npol x"
    using assms by (simp_all add: valid_solution_def)
  have "nat (nsol x * nant x * nchan x * npol x) = nat (nsol x) * nat (nant x) * nat (nchan x) * nat (npol x)"
    using pos by (simp add: nat_mult_distrib)
  then show ?thesis
    using assms pos by (simp add: reshape_def valid_solution_def)
qed

lemma load_saved:
  assumes "valid_solution x"
  shows "load_aosolutions_file
           (fs(p \<mapsto> header_intro @ header_bytes (nsol x) (nant x) (nchan x) (npol x) @ tofile (bandpass x))) p
         = Inr (x\<lparr>path := p\<rparr>)"
proof -
  let ?n = "nsol x * nant x * nchan x * npol x"
  have v: "0 \<le> nsol x" "nsol x < 2 ^ 31" "0 \<le> nant x" "nant x < 2 ^ 31"
          "0 \<le> nchan x" "nchan x < 2 ^ 31" "0 \<le> npol x" "npol x < 2 ^ 31"
          "?n < 2 ^ 63" "length (data (bandpass x)) = nat ?n"
    using assms by (simp_all add: valid_solution_def)
  have n0: "0 \<le> ?n" using v by simp
  obtain t0 t1 t2 t3 where hd:
    "fromfile_i4 10 (header_bytes (nsol x) (nant x) (nchan x) (npol x) @ tofile (bandpass x)) =
       ([0, 0, nsol x, nant x, nchan x, npol x, t0, t1, t2, t3], tofile (bandpass x))"
    using fromfile_i4_header[of "nsol x" "nant x" "nchan x" "npol x" "tofile (bandpass x)"] v
    by (auto simp: sint_word_of_int_32)
  have pl: "prod_list [nsol x, nant x, nchan x, npol x] = ?n"
    by simp
  have "sint (word_of_int ?n :: 64 word) = ?n"
    using n0 v(9) by (rule sint_word_of_int_64)
  then have "np_prod_int64 [nsol x, nant x, nchan x, npol x] = ?n"
    unfolding np_prod_int64_def pl .
  then have cnt: "np_prod_int64 [nsol x, nant x, nchan x, npol x] = int (length (data (bandpass x)))"
    using v(10) n0 by simp
  have body: "fromfile_c16 (int (length (data (bandpass x)))) (tofile (bandpass x)) = (data (bandpass x), [])"
    using fromfile_c16_tofile[of "bandpass x" "[]"] by simp
  show ?thesis
    by (simp add: load_aosolutions_file_def fromfile_i4_junk hd cnt body reshape_valid[OF assms])
qed

lemma le_bytes_zero: "le_bytes n 0 = replicate n 0"
  by (induction n) auto

lemma reserved_zero:
  "take 16 (drop 32 (header_intro @ header_bytes a b c d @ rest)) = replicate 16 0"
  by (simp add: header_intro_def header_bytes_def pack_d_zero_def le_bytes_zero flip: replicate_add)

text \<open>
  C5. Round trip: saving a valid solution set and loading the file again succeeds and
  gives back the same \<open>nsol\<close>, \<open>nant\<close>, \<open>nchan\<close>, \<open>npol\<close> and the same array (shape and
  every element, bit for bit); only \<open>path\<close> is the path loaded from. The 16 bytes of the
  two reserved time doubles, at offset 32, are written as zeros.
\<close>

theorem roundtrip:
  assumes "valid_solution x"
  shows "(case save_aosolutions_file fs x p of
            (fs', r) \<Rightarrow> r = Inr p \<and> load_aosolutions_file fs' p = Inr (x\<lparr>path := p\<rparr>)
              \<and> map_option (\<lambda>contents. take 16 (drop 32 contents)) (fs' p) = Some (replicate 16 0))"
proof -
  let ?contents = "header_intro @ header_bytes (nsol x) (nant x) (nchan x) (npol x) @ tofile (bandpass x)"
  have "load_aosolutions_file (fs(p \<mapsto> ?contents)) p = Inr (x\<lparr>path := p\<rparr>)"
    using assms by (rule load_saved)
  moreover have "map_option (\<lambda>contents. take 16 (drop 32 contents)) ((fs(p \<mapsto> ?contents)) p)
      = Some (replicate 16 0)"
    by (simp only: fun_upd_same option.map reserved_zero)
  ultimately show ?thesis
    unfolding save_valid[OF assms] by (simp only: prod.case simp_thms)
qed

theorem roundtrip_witness:
  "valid_solution roundtrip_example \<and>
   (case save_aosolutions_file Map.empty roundtrip_example ''out.bin'' of
      (fs', r) \<Rightarrow> r = Inr ''out.bin''
        \<and> load_aosolutions_file fs' ''out.bin'' = Inr (roundtrip_example\<lparr>path := ''out.bin''\<rparr>)
        \<and> map_option (\<lambda>contents. take 16 (drop 32 contents)) (fs' ''out.bin'') = Some (replicate 16 0))"
  using roundtrip [where x = roundtrip_example and fs = Map.empty and p = "''out.bin''"]
  by (simp add: valid_solution_def roundtrip_example_def)

lemma fromfile_i4_magic:
  assumes "length m = 8"
  shows "\<exists>junk. fromfile_i4 2 (m @ rest) = (junk, rest)"
  using read_items_prefix[of 4 m 2 rest] assms by (simp add: fromfile_i4_def)

lemma fromfile_i4_first:
  assumes "length ft = 4"
  shows "\<exists>hs in_file. fromfile_i4 10 (ft @ rest) = (sint (le_word ft :: 32 word) # hs, in_file)"
proof -
  define n where "n = min (nat 10) (length (ft @ rest) div 4)"
  have "(4 + length rest) div 4 = 1 + length rest div 4" by simp
  then have "0 < n" using assms by (simp add: n_def)
  then have "[0..<n] = 0 # [Suc 0..<n]" by (simp add: upt_conv_Cons)
  then have "map (\<lambda>i. take 4 (drop (i * 4) (ft @ rest))) [0..<n] =
               ft # map (\<lambda>i. take 4 (drop (i * 4) (ft @ rest))) [Suc 0..<n]"
    using assms by simp
  moreover have "read_items 4 10 (ft @ rest) =
      (map (\<lambda>i. take 4 (drop (i * 4) (ft @ rest))) [0..<n], drop (n * 4) (ft @ rest))"
    by (simp add: read_items_def n_def Let_def)
  ultimately show ?thesis
    by (simp add: fromfile_i4_def)
qed

text \<open>
  C4, as the code has it. \<open>load_aosolutions_file\<close> reads the 8 bytes of the magic tag
  into \<open>_junk\<close> and never looks at them: two files that differ only in those bytes load
  alike. The \<open>file_type\<close> field is checked: a file of at least 12 bytes whose \<open>file_type\<close>
  is not 0 fails with \<open>AssertionError\<close>.
\<close>

theorem load_checks_file_type_only:
  assumes "length m = 8" and "length m' = 8"
  shows "load_aosolutions_file (fs(p \<mapsto> m @ rest)) p = load_aosolutions_file (fs(p \<mapsto> m' @ rest)) p
         \<and> (length ft = 4 \<and> sint (le_word ft :: 32 word) \<noteq> 0 \<longrightarrow>
              load_aosolutions_file (fs(p \<mapsto> m @ ft @ rest')) p = Inl AssertionError)"
proof (intro conjI impI)
  obtain j j' where "fromfile_i4 2 (m @ rest) = (j, rest)" "fromfile_i4 2 (m' @ rest) = (j', rest)"
    using fromfile_i4_magic[OF assms(1), of rest] fromfile_i4_magic[OF assms(2), of rest] by blast
  then show "load_aosolutions_file (fs(p \<mapsto> m @ rest)) p = load_aosolutions_file (fs(p \<mapsto> m' @ rest)) p"
    by (simp add: load_aosolutions_file_def)
next
  assume ft: "length ft = 4 \<and> sint (le_word ft :: 32 word) \<noteq> 0"
  obtain j where j: "fromfile_i4 2 (m @ ft @ rest') = (j, ft @ rest')"
    using fromfile_i4_magic[OF assms(1), of "ft @ rest'"] by blast
  obtain hs in_file where h: "fromfile_i4 10 (ft @ rest') = (sint (le_word ft :: 32 word) # hs, in_file)"
    using fromfile_i4_first[of ft rest'] ft by blast
  show "load_aosolutions_file (fs(p \<mapsto> m @ ft @ rest')) p = Inl AssertionError"
    using ft by (simp add: load_aosolutions_file_def j h)
qed

text \<open>
  C4, as specified, fails: a file whose magic tag is \<open>"NOTMAGIC"\<close> loads without an error.
\<close>

theorem load_accepts_bad_magic:
  "take 8 bad_magic_file \<noteq> header_intro \<and>
   load_aosolutions_file [''bad.bin'' \<mapsto> bad_magic_file] ''bad.bin'' =
     Inr \<lparr>path = ''bad.bin'', nsol = 1, nant = 1, nchan = 1, npol = 1,
          bandpass = \<lparr>shape = [1, 1, 1, 1], data = [(float64_one, 0)]\<rparr>\<rparr>"
  by code_simp

theorem load_checks_file_type_only_witness:
  "length (take 8 bad_magic_file) = 8 \<and> length header_intro = 8
   \<and> length [1, 0, 0, 0 :: byte] = 4 \<and> sint (le_word [1, 0, 0, 0] :: 32 word) \<noteq> 0
   \<and> load_aosolutions_file [''f.bin'' \<mapsto> take 8 bad_magic_file @ drop 8 bad_magic_file] ''f.bin''
       = load_aosolutions_file [''f.bin'' \<mapsto> header_intro @ drop 8 bad_magic_file] ''f.bin''
   \<and> load_aosolutions_file [''f.bin'' \<mapsto> take 8 bad_magic_file @ [1, 0, 0, 0] @ []] ''f.bin''
       = Inl AssertionError"
  using load_checks_file_type_only [where m = "take 8 bad_magic_file" and m' = header_intro
      and rest = "drop 8 bad_magic_file" and ft = "[1, 0, 0, 0]" and rest' = "[]"
      and fs = Map.empty and p = "''f.bin''"]
  by (simp add: bad_magic_file_def header_intro_def)

section \<open>Properties of \<open>flag_mean_residual_amplitude\<close>\<close>

text \<open>
  C3. The specification describes a polynomial fit and a test on the residual statistics. The
  function never gets that far: it calls \<open>np.polyfit\<close> with the keyword \<open>order\<close>, which
  \<open>np.polyfit\<close> does not have (the degree is \<open>deg\<close>), so every call raises \<open>TypeError\<close>,
  whatever the gains, the statistics requested and the order.
\<close>

theorem flag_mean_residual_amplitude_raises:
  "flag_mean_residual_amplitude ext gains use_robust polynomial_order = Inl TypeError"
  by (simp add: flag_mean_residual_amplitude_def np_polyfit_def)

section \<open>Properties of \<open>flag_outlier_phase\<close>\<close>

text \<open>
  C1. The specification flags a finite residual \<open>r\<close> when \<open>|r - center| \<ge> flag_cut * spread\<close>. The
  code keeps a finite residual when \<open>|r| < center + flag_cut * spread\<close>, which is the same
  test only for a centre of 0. On \<open>cut_residuals\<close> with median and MAD (centre \<open>1/4\<close>,
  spread \<open>1/8\<close>) and \<open>flag_cut = 3\<close> the code keeps the last channel, \<open>r = -1/2\<close>, because
  \<open>1/2 < 1/4 + 3/8\<close>, although it is \<open>3/4\<close>, six spreads, away from the centre.
\<close>

theorem residual_outliers_not_centred:
  "residual_outliers cut_residuals 3 True =
     ([False, False, True, False, False, False, False], Some (1 / 4), Some (1 / 8))
   \<and> map (\<lambda>r. spec_outlier r 3 (1 / 4) (1 / 8)) cut_residuals =
     [False, False, True, False, False, False, True]"
  by (simp add: residual_outliers_def residual_statistics_def final_mask_def cut_residuals_def
      finite_values_def is_finite_def np_median_def float_lt_def lift2_def Let_def
      spec_outlier_def)

section \<open>Properties of \<open>flag_aosolutions\<close>\<close>

lemma save_solution_file:
  "valid_solution x \<Longrightarrow> save_aosolutions_file fs x p = (fs(p \<mapsto> solution_file x), Inr p)"
  unfolding solution_file_def by (rule save_valid)

lemma load_solution_file:
  "valid_solution x \<Longrightarrow> load_aosolutions_file (fs(p \<mapsto> solution_file x)) p = Inr (x\<lparr>path := p\<rparr>)"
  unfolding solution_file_def by (rule load_saved)

lemma save_written:
  assumes "save_aosolutions_file fs x p = (fs1, Inr q)"
  shows "\<exists>hdr. fs1 p = Some (hdr @ tofile (bandpass x))"
proof -
  obtain ints where "pack_Is [0, 0, nsol x, nant x, nchan x, npol x] = Inr ints"
    using assms by (auto simp: save_aosolutions_file_def split: sum.splits)
  then have "fs1 p = Some ((header_intro @ ints @ pack_d_zero @ pack_d_zero) @ tofile (bandpass x))"
    using assms by (auto simp: save_aosolutions_file_def)
  then show ?thesis by blast
qed

lemma persist_saved:
  assumes "persist ext fs sp sol ref b sm pl plots0 = (fs', Inr (b', out, ps))"
  shows "out = get_aocalibrate_output_path ext sp True sm
         \<and> (\<exists>fs0 q. save_aosolutions_file fs0 (sol\<lparr>bandpass := b'\<rparr>) out = (fs', Inr q))"
proof -
  let ?out1 = "get_aocalibrate_output_path ext sp True False"
  let ?out2 = "get_aocalibrate_output_path ext sp True True"
  obtain fs1 r1 where s1: "save_aosolutions_file fs (sol\<lparr>bandpass := b\<rparr>) ?out1 = (fs1, r1)"
    by (cases "save_aosolutions_file fs (sol\<lparr>bandpass := b\<rparr>) ?out1") blast
  obtain q1 where r1: "r1 = Inr q1"
    using assms s1 by (cases r1) (simp_all add: persist_def Let_def)
  obtain p1 where p1: "optional_plots ext pl fs1 ?out1 (Some (int ref)) = Inr p1"
    using assms s1 r1
    by (cases "optional_plots ext pl fs1 ?out1 (Some (int ref))") (simp_all add: persist_def Let_def)
  show ?thesis
  proof (cases sm)
    case False
    then have "fs' = fs1" "b' = b" "out = ?out1"
      using assms s1 r1 p1 by (simp_all add: persist_def Let_def)
    then show ?thesis
      using s1 r1 False by auto
  next
    case True
    obtain bs where bs: "for_each (smooth_time ext ref) (py_range (nsol sol)) b = Inr bs"
      using assms s1 r1 p1 True
      by (cases "for_each (smooth_time ext ref) (py_range (nsol sol)) b") (simp_all add: persist_def Let_def)
    obtain fs2 r2 where s2: "save_aosolutions_file fs1 (sol\<lparr>bandpass := bs\<rparr>) ?out2 = (fs2, r2)"
      by (cases "save_aosolutions_file fs1 (sol\<lparr>bandpass := bs\<rparr>) ?out2") blast
    obtain q2 where r2: "r2 = Inr q2"
      using assms s1 r1 p1 True bs s2 by (cases r2) (simp_all add: persist_def Let_def)
    obtain p2 where p2: "optional_plots ext pl fs2 ?out2 None = Inr p2"
      using assms s1 r1 p1 True bs s2 r2
      by (cases "optional_plots ext pl fs2 ?out2 None") (simp_all add: persist_def Let_def)
    have "fs' = fs2" "b' = bs" "out = ?out2"
      using assms s1 r1 p1 True bs s2 r2 p2 by (simp_all add: persist_def Let_def)
    then show ?thesis
      using s2 r2 True by auto
  qed
qed

lemma persist_written:
  assumes "persist ext fs sp sol ref b sm pl plots0 = (fs', Inr (b', out, ps))"
  shows "out = get_aocalibrate_output_path ext sp True sm \<and> (\<exists>hdr. fs' out = Some (hdr @ tofile b'))"
proof -
  obtain fs0 q where "out = get_aocalibrate_output_path ext sp True sm"
    and "save_aosolutions_file fs0 (sol\<lparr>bandpass := b'\<rparr>) out = (fs', Inr q)"
    using persist_saved[OF assms] by blast
  then show ?thesis
    using save_written[of fs0 "sol\<lparr>bandpass := b'\<rparr>" out fs' q] by simp
qed

lemma pack_Is_length: "pack_Is vs = Inr bs \<Longrightarrow> length bs = 4 * length vs"
  by (induction vs arbitrary: bs) (auto simp: pack_I_def split: sum.splits if_splits)

lemma save_contents:
  assumes "save_aosolutions_file fs x p = (fs1, Inr q)"
  shows "\<exists>contents. fs1 p = Some contents \<and> drop 48 contents = tofile (bandpass x)"
proof -
  obtain ints where i: "pack_Is [0, 0, nsol x, nant x, nchan x, npol x] = Inr ints"
    using assms by (auto simp: save_aosolutions_file_def split: sum.splits)
  have "length ints = 24"
    using pack_Is_length[OF i] by simp
  moreover have "fs1 p = Some (header_intro @ ints @ pack_d_zero @ pack_d_zero @ tofile (bandpass x))"
    using assms i by (auto simp: save_aosolutions_file_def)
  ultimately show ?thesis
    by (simp add: header_intro_def pack_d_zero_def)
qed

lemma persist_contents:
  assumes "persist ext fs sp sol ref b sm pl plots0 = (fs', Inr (b', out, ps))"
  shows "\<exists>contents. fs' out = Some contents \<and> drop 48 contents = tofile b'"
proof -
  obtain fs0 q where "save_aosolutions_file fs0 (sol\<lparr>bandpass := b'\<rparr>) out = (fs', Inr q)"
    using persist_saved[OF assms] by blast
  then show ?thesis
    using save_contents[of fs0 "sol\<lparr>bandpass := b'\<rparr>" out fs' q] by simp
qed

lemmas eval_defs = np_isfinite_def float64_isfinite_def np_nan_def float64_nan_def float64_one_def
  count_true_def

lemma over_flagged_valid: "valid_solution over_flagged"
  by (simp add: valid_solution_def over_flagged_def)

lemma over_flagged_refant: "select_refant (bandpass over_flagged) = Inr 0"
  by (simp add: select_refant_def over_flagged_def sum_axes_2_3_def np_argmax_def eval_defs)

lemma over_flagged_first_pass:
  "first_pass example_externals fc pd title over_flagged 0 (bandpass over_flagged) = Inr (bandpass over_flagged)"
  by (simp add: first_pass_def py_range_def flag_time_pol_def getitem_cell_def over_flagged_def
      flag_antenna_pol_def eval_defs upt_conv_Cons nth_append)

lemma over_flagged_second_pass:
  "second_pass example_externals over_flagged 0 (bandpass over_flagged) = Inr (bandpass over_flagged)"
  by (simp add: second_pass_def py_range_def getitem_antenna_def over_flagged_def flag_antenna_ratio_def)

lemma over_flagged_flagging:
  "flagging example_externals [''cal.bin'' \<mapsto> solution_file over_flagged] ''cal.bin'' (- 1) fc pd False
     = Inr (over_flagged, 0, bandpass over_flagged, [])"
proof -
  have p: "over_flagged\<lparr>path := ''cal.bin''\<rparr> = over_flagged" by (simp add: over_flagged_def)
  have "load_aosolutions_file [''cal.bin'' \<mapsto> solution_file over_flagged] ''cal.bin'' = Inr over_flagged"
    using load_solution_file[OF over_flagged_valid, of Map.empty "''cal.bin''"] p by simp
  then show ?thesis
    by (simp add: flagging_def over_flagged_refant optional_plots_def over_flagged_first_pass
        over_flagged_second_pass)
qed

lemma over_flagged_persist:
  "persist example_externals fs ''cal.bin'' over_flagged 0 (bandpass over_flagged) False False []
     = (fs(''cal.bin.preflagged'' \<mapsto> solution_file over_flagged),
        Inr (bandpass over_flagged, ''cal.bin.preflagged'', []))"
proof -
  have "over_flagged\<lparr>bandpass := bandpass over_flagged\<rparr> = over_flagged" by simp
  then show ?thesis
    by (simp add: persist_def Let_def save_solution_file[OF over_flagged_valid] optional_plots_def
        example_externals_def)
qed

lemma over_flagged_total: "total_flagged (bandpass over_flagged) = Some (binary64_quotient 17 20)"
  by (simp add: total_flagged_def over_flagged_def np_true_divide_def eval_defs)

lemma over_flagged_over: "float_gt (total_flagged (bandpass over_flagged)) float_0_8"
  by (simp add: over_flagged_total float_gt_def binary64_defs)

lemma stored_elements_tofile: "stored_elements (hdr @ tofile a) = data a" if "length hdr = 48"
proof -
  have "read_items 16 (- 1) (tofile a) = read_items 16 (int (length (data a))) (tofile a)"
    by (simp add: read_items_def length_tofile)
  then have "fromfile_c16 (- 1) (tofile a) = (data a, [])"
    using fromfile_c16_tofile[of a "[]"] by (simp add: fromfile_c16_def)
  then show ?thesis
    using that by (simp add: stored_elements_def)
qed

lemma persist_holds_array:
  assumes "persist ext fs sp sol ref b sm pl plots0 = (fs', Inr (b', out, ps))"
  shows "\<exists>contents. fs' out = Some contents \<and> drop 48 contents = tofile b'
           \<and> stored_elements contents = data b'"
proof -
  obtain contents where c: "fs' out = Some contents" "drop 48 contents = tofile b'"
    using persist_contents[OF assms] by blast
  have "stored_elements contents = fst (fromfile_c16 (- 1) (tofile b'))"
    using c(2) by (simp add: stored_elements_def)
  also have "\<dots> = data b'"
    using stored_elements_tofile[of "replicate 48 0" b'] by (simp add: stored_elements_def)
  finally show ?thesis using c by blast
qed

text \<open>
  C6, as specified, fails in its last part. On a file whose array is 85 percent NaN
  (\<open>over_flagged\<close>, 17 of 20 entries) the run ends with the fatal \<open>ValueError\<close>, but the
  flagged solution file \<open>cal.bin.preflagged\<close> has been written by then: the check comes
  after \<open>solutions.save\<close>.
\<close>

theorem over_flagged_file_is_written:
  "flag_aosolutions example_externals [''cal.bin'' \<mapsto> solution_file over_flagged] ''cal.bin'' (- 1) 3
       None None False False
     = ([''cal.bin'' \<mapsto> solution_file over_flagged,
         ''cal.bin.preflagged'' \<mapsto> solution_file over_flagged], Inl ValueError)
   \<and> count_true (map (\<lambda>z. \<not> np_isfinite z) (data (bandpass over_flagged))) = 17
   \<and> prod_list (shape (bandpass over_flagged)) = 20
   \<and> total_flagged (bandpass over_flagged) = Some (binary64_quotient 17 20)"
proof -
  have "count_true (map (\<lambda>z. \<not> np_isfinite z) (data (bandpass over_flagged))) = 17"
    by (simp add: over_flagged_def eval_defs)
  moreover have "prod_list (shape (bandpass over_flagged)) = 20"
    by (simp add: over_flagged_def)
  ultimately show ?thesis
    using over_flagged_over
    by (simp add: flag_aosolutions_def over_flagged_flagging over_flagged_persist sanity_check_def
        over_flagged_total)
qed

text \<open>
  C6, as the code has it. Once the flagging passes are done and the solution file (the
  smoothed one too, when smoothing is requested) has been written, the fraction of
  non-finite entries of the whole array is computed; if it exceeds 0.8 the run raises
  \<open>ValueError\<close> and returns no result, and the file it wrote, under the name given by the
  naming convention, holds the flagged array. Whenever a result is returned, the file at
  the returned path holds the array that the flagging and persisting stages produced, and
  the non-finite fraction of that array does not exceed 0.8.
\<close>

theorem sanity_check_after_persist:
  "(flagging ext fs sp ra fc pd pl = Inr (sol, ref, b, pb)
      \<and> persist ext fs sp sol ref b sm pl pb = (fs', Inr (b', out, ps))
      \<and> float_gt (total_flagged b') float_0_8
    \<longrightarrow> flag_aosolutions ext fs sp ra fc pd osp sm pl = (fs', Inl ValueError)
        \<and> out = get_aocalibrate_output_path ext sp True sm
        \<and> (\<exists>contents. fs' out = Some contents \<and> drop 48 contents = tofile b'
                        \<and> stored_elements contents = data b'))
   \<and> (flag_aosolutions ext fs sp ra fc pd osp sm pl = (fs'', Inr r)
    \<longrightarrow> (\<exists>sol' ref' b0 pb' b'' ps'.
            flagging ext fs sp ra fc pd pl = Inr (sol', ref', b0, pb')
          \<and> persist ext fs sp sol' ref' b0 sm pl pb' = (fs'', Inr (b'', flagged_path r, ps'))
          \<and> (\<exists>contents. fs'' (flagged_path r) = Some contents \<and> drop 48 contents = tofile b''
                          \<and> stored_elements contents = data b'')
          \<and> \<not> float_gt (total_flagged b'') float_0_8))"
proof (intro conjI impI)
  assume a: "flagging ext fs sp ra fc pd pl = Inr (sol, ref, b, pb)
      \<and> persist ext fs sp sol ref b sm pl pb = (fs', Inr (b', out, ps))
      \<and> float_gt (total_flagged b') float_0_8"
  then show "flag_aosolutions ext fs sp ra fc pd osp sm pl = (fs', Inl ValueError)"
    by (simp add: flag_aosolutions_def sanity_check_def)
  from a show "out = get_aocalibrate_output_path ext sp True sm"
    using persist_written by blast
  from a show "\<exists>contents. fs' out = Some contents \<and> drop 48 contents = tofile b'
                        \<and> stored_elements contents = data b'"
    using persist_holds_array by blast
next
  assume r: "flag_aosolutions ext fs sp ra fc pd osp sm pl = (fs'', Inr r)"
  obtain sol ref b pb where f: "flagging ext fs sp ra fc pd pl = Inr (sol, ref, b, pb)"
    using r by (cases "flagging ext fs sp ra fc pd pl") (auto simp: flag_aosolutions_def)
  obtain fsp rp where p: "persist ext fs sp sol ref b sm pl pb = (fsp, rp)"
    by (cases "persist ext fs sp sol ref b sm pl pb") blast
  obtain b' out ps where rp: "rp = Inr (b', out, ps)"
    using r f p by (cases rp) (auto simp: flag_aosolutions_def)
  have s: "fsp = fs''" "sanity_check b' out ps = Inr r"
    using r f p rp by (simp_all add: flag_aosolutions_def)
  then have o: "flagged_path r = out" "\<not> float_gt (total_flagged b') float_0_8"
    by (auto simp: sanity_check_def split: if_splits)
  have p': "persist ext fs sp sol ref b sm pl pb = (fs'', Inr (b', flagged_path r, ps))"
    using p rp s(1) o(1) by simp
  have "\<exists>contents. fs'' (flagged_path r) = Some contents \<and> drop 48 contents = tofile b'
                        \<and> stored_elements contents = data b'"
    using persist_holds_array[OF p'] .
  then show "\<exists>sol' ref' b0 pb' b'' ps'.
            flagging ext fs sp ra fc pd pl = Inr (sol', ref', b0, pb')
          \<and> persist ext fs sp sol' ref' b0 sm pl pb' = (fs'', Inr (b'', flagged_path r, ps'))
          \<and> (\<exists>contents. fs'' (flagged_path r) = Some contents \<and> drop 48 contents = tofile b''
                          \<and> stored_elements contents = data b'')
          \<and> \<not> float_gt (total_flagged b'') float_0_8"
    using f p' o(2) by blast
qed

theorem sanity_check_after_persist_witness:
  "flagging example_externals [''cal.bin'' \<mapsto> solution_file over_flagged] ''cal.bin'' (- 1) 3 None False
     = Inr (over_flagged, 0, bandpass over_flagged, [])
   \<and> persist example_externals [''cal.bin'' \<mapsto> solution_file over_flagged] ''cal.bin'' over_flagged 0
        (bandpass over_flagged) False False []
     = ([''cal.bin'' \<mapsto> solution_file over_flagged,
         ''cal.bin.preflagged'' \<mapsto> solution_file over_flagged],
        Inr (bandpass over_flagged, ''cal.bin.preflagged'', []))
   \<and> float_gt (total_flagged (bandpass over_flagged)) float_0_8
   \<and> fst (flag_aosolutions example_externals [''cal.bin'' \<mapsto> solution_file over_flagged] ''cal.bin''
             (- 1) 3 None None False False) ''cal.bin.preflagged''
       = Some (solution_file over_flagged)
   \<and> snd (flag_aosolutions example_externals [''cal.bin'' \<mapsto> solution_file over_flagged] ''cal.bin''
             (- 1) 3 None None False False) = Inl ValueError
   \<and> stored_elements (solution_file over_flagged) = data (bandpass over_flagged)"
proof -
  have e: "stored_elements (solution_file over_flagged) = data (bandpass over_flagged)"
    unfolding solution_file_def
    using stored_elements_tofile[of "header_intro @ header_bytes 1 1 5 4" "bandpass over_flagged"]
    by (simp add: header_intro_def header_bytes_def pack_d_zero_def over_flagged_def)
  show ?thesis
    using sanity_check_after_persist [where ext = example_externals
        and fs = "[''cal.bin'' \<mapsto> solution_file over_flagged]" and sp = "''cal.bin''" and ra = "- 1"
        and fc = 3 and pd = None and pl = False and sol = over_flagged and ref = 0
        and b = "bandpass over_flagged" and pb = "[]" and sm = False
        and fs' = "[''cal.bin'' \<mapsto> solution_file over_flagged,
                    ''cal.bin.preflagged'' \<mapsto> solution_file over_flagged]"
        and b' = "bandpass over_flagged" and out = "''cal.bin.preflagged''" and ps = "[]" and osp = None]
      e over_flagged_over
    by (simp add: over_flagged_flagging over_flagged_persist)
qed

text \<open>
  C10. \<open>flag_aosolutions\<close> does not use its \<open>out_solutions_path\<close> argument: two calls that
  differ only in it do the same and return the same. The path of a returned
  \<open>FlaggedAOSolution\<close> is \<open>get_aocalibrate_output_path\<close> of \<open>solutions_path\<close> with the
  preflagger suffix, and with the smoother suffix exactly when smoothing is requested,
  and the flagged solution file exists at that path.
\<close>

theorem out_solutions_path_ignored:
  "flag_aosolutions ext fs sp ra fc pd outa sm pl = flag_aosolutions ext fs sp ra fc pd outb sm pl
   \<and> (flag_aosolutions ext fs sp ra fc pd outa sm pl = (fs', Inr r)
    \<longrightarrow> flagged_path r = get_aocalibrate_output_path ext sp True sm
        \<and> (\<exists>contents. fs' (flagged_path r) = Some contents))"
proof (intro conjI impI)
  show "flag_aosolutions ext fs sp ra fc pd outa sm pl = flag_aosolutions ext fs sp ra fc pd outb sm pl"
    by (simp add: flag_aosolutions_def)
next
  assume r: "flag_aosolutions ext fs sp ra fc pd outa sm pl = (fs', Inr r)"
  obtain sol ref b pb where f: "flagging ext fs sp ra fc pd pl = Inr (sol, ref, b, pb)"
    using r by (cases "flagging ext fs sp ra fc pd pl") (auto simp: flag_aosolutions_def)
  obtain fsp rp where p: "persist ext fs sp sol ref b sm pl pb = (fsp, rp)"
    by (cases "persist ext fs sp sol ref b sm pl pb") blast
  obtain b' out ps where rp: "rp = Inr (b', out, ps)"
    using r f p by (cases rp) (auto simp: flag_aosolutions_def)
  have s: "fsp = fs'" "sanity_check b' out ps = Inr r"
    using r f p rp by (simp_all add: flag_aosolutions_def)
  then have o: "flagged_path r = out"
    by (auto simp: sanity_check_def split: if_splits)
  have w: "out = get_aocalibrate_output_path ext sp True sm \<and> (\<exists>hdr. fs' out = Some (hdr @ tofile b'))"
    using persist_written p rp s(1) by blast
  show "flagged_path r = get_aocalibrate_output_path ext sp True sm"
    using o w by simp
  show "\<exists>contents. fs' (flagged_path r) = Some contents"
    using o w by blast
qed

lemma one_antenna_valid: "valid_solution one_antenna"
  by (simp add: valid_solution_def one_antenna_def)

lemma one_antenna_flagging:
  "flagging example_externals [''cal.bin'' \<mapsto> solution_file one_antenna] ''cal.bin'' (- 1) fc pd False
     = Inr (one_antenna, 0, bandpass one_antenna, [])"
proof -
  have p: "one_antenna\<lparr>path := ''cal.bin''\<rparr> = one_antenna" by (simp add: one_antenna_def)
  have l: "load_aosolutions_file [''cal.bin'' \<mapsto> solution_file one_antenna] ''cal.bin'' = Inr one_antenna"
    using load_solution_file[OF one_antenna_valid, of Map.empty "''cal.bin''"] p by simp
  have r: "select_refant (bandpass one_antenna) = Inr 0"
    by (simp add: select_refant_def one_antenna_def sum_axes_2_3_def np_argmax_def eval_defs)
  have f: "first_pass example_externals fc pd (path_name ''cal.bin'') one_antenna 0 (bandpass one_antenna)
             = Inr (bandpass one_antenna)"
    by (simp add: first_pass_def py_range_def flag_time_pol_def getitem_cell_def one_antenna_def
        flag_antenna_pol_def eval_defs upt_conv_Cons)
  have s: "second_pass example_externals one_antenna 0 (bandpass one_antenna) = Inr (bandpass one_antenna)"
    by (simp add: second_pass_def py_range_def getitem_antenna_def one_antenna_def flag_antenna_ratio_def)
  show ?thesis
    by (simp add: flagging_def l r optional_plots_def f s)
qed

lemma one_antenna_persist:
  "persist example_externals fs ''cal.bin'' one_antenna 0 (bandpass one_antenna) True False []
     = (fs(''cal.bin.preflagged'' \<mapsto> solution_file one_antenna,
           ''cal.bin.preflagged.smoothed'' \<mapsto> solution_file one_antenna),
        Inr (bandpass one_antenna, ''cal.bin.preflagged.smoothed'', []))"
proof -
  have u: "one_antenna\<lparr>bandpass := bandpass one_antenna\<rparr> = one_antenna" by simp
  have sm: "for_each (smooth_time example_externals 0) (py_range (nsol one_antenna)) (bandpass one_antenna)
              = Inr (bandpass one_antenna)"
    by (simp add: py_range_def one_antenna_def smooth_time_def getitem_time_def setitem_time_def
        example_externals_def)
  have n: "\<And>p a c. get_aocalibrate_output_path example_externals p a c =
             p @ (if a then ''.preflagged'' else []) @ (if c then ''.smoothed'' else [])"
    by (simp add: example_externals_def)
  show ?thesis
    by (simp add: persist_def Let_def u sm save_solution_file[OF one_antenna_valid] optional_plots_def n)
qed

theorem out_solutions_path_ignored_witness:
  "flag_aosolutions example_externals [''cal.bin'' \<mapsto> solution_file one_antenna] ''cal.bin'' (- 1) 3
       None (Some ''elsewhere.bin'') True False
     = flag_aosolutions example_externals [''cal.bin'' \<mapsto> solution_file one_antenna] ''cal.bin'' (- 1) 3
       None None True False
   \<and> flag_aosolutions example_externals [''cal.bin'' \<mapsto> solution_file one_antenna] ''cal.bin'' (- 1) 3
       None (Some ''elsewhere.bin'') True False
     = ([''cal.bin'' \<mapsto> solution_file one_antenna,
         ''cal.bin.preflagged'' \<mapsto> solution_file one_antenna,
         ''cal.bin.preflagged.smoothed'' \<mapsto> solution_file one_antenna],
        Inr \<lparr>flagged_path = ''cal.bin.preflagged.smoothed'', plots = []\<rparr>)
   \<and> get_aocalibrate_output_path example_externals ''cal.bin'' True True = ''cal.bin.preflagged.smoothed''"
proof -
  have t: "total_flagged (bandpass one_antenna) = Some 0"
    by (simp add: total_flagged_def one_antenna_def np_true_divide_def eval_defs binary64_defs)
  have run: "flag_aosolutions example_externals [''cal.bin'' \<mapsto> solution_file one_antenna] ''cal.bin'' (- 1) 3
       None (Some ''elsewhere.bin'') True False
     = ([''cal.bin'' \<mapsto> solution_file one_antenna,
         ''cal.bin.preflagged'' \<mapsto> solution_file one_antenna,
         ''cal.bin.preflagged.smoothed'' \<mapsto> solution_file one_antenna],
        Inr \<lparr>flagged_path = ''cal.bin.preflagged.smoothed'', plots = []\<rparr>)"
    by (simp add: flag_aosolutions_def one_antenna_flagging one_antenna_persist sanity_check_def t
        float_gt_def float_0_8_value)
  have n: "get_aocalibrate_output_path example_externals ''cal.bin'' True True = ''cal.bin.preflagged.smoothed''"
    by (simp add: example_externals_def)
  show ?thesis
    using out_solutions_path_ignored [where ext = example_externals
        and fs = "[''cal.bin'' \<mapsto> solution_file one_antenna]" and sp = "''cal.bin''" and ra = "- 1"
        and fc = 3 and pd = None and outa = "Some ''elsewhere.bin''" and outb = None and sm = True
        and pl = False] run n
    by simp
qed







end
